theory Spec2Isabelle
  imports Complex_Main "HOL-Library.Sublist"
begin

section \<open>Python values used by the service\<close>

text \<open>
  The service is \<^verbatim>\<open>src/sigmos_api.py\<close>. Python strings are modelled as \<^typ>\<open>string\<close>;
  a character outside ASCII is written as its UTF-8 bytes (\<open>CHR 0x..\<close>).
  Exceptions are values of \<open>exn\<close>; a computation that may raise returns \<open>exn + 'a\<close>,
  with \<open>Inl\<close> for the exception.
\<close>

datatype exn =
    KeyError string
  | ZeroDivisionError string
  | AttributeError string
  | TypeError string
  | IndexError string
  | Raised string

text \<open>
  \<^verbatim>\<open>str(e)\<close>: the message of the exception; for a KeyError the repr of the key (here
  always a plain ASCII string, so the key between single quotes).
\<close>

definition str_exn :: "exn \<Rightarrow> string" where
  "str_exn e =
     (case e of
        KeyError k \<Rightarrow> [CHR 0x27] @ k @ [CHR 0x27]
      | ZeroDivisionError m \<Rightarrow> m
      | AttributeError m \<Rightarrow> m
      | TypeError m \<Rightarrow> m
      | IndexError m \<Rightarrow> m
      | Raised m \<Rightarrow> m)"

definition bind_exn :: "exn + 'a \<Rightarrow> ('a \<Rightarrow> exn + 'b) \<Rightarrow> exn + 'b" where
  "bind_exn m f = (case m of Inl e \<Rightarrow> Inl e | Inr x \<Rightarrow> f x)"

text \<open>
  \<^verbatim>\<open>str.lower()\<close> on the ASCII letters. Python lowers other code points too, but no
  code point outside \<open>A..Z\<close> is lowered to one of the letters of the allowed
  extensions, so membership in \<open>ALLOWED_EXTENSIONS\<close> is decided the same way.
\<close>

definition lower_char :: "char \<Rightarrow> char" where
  "lower_char c =
     (case map_of (zip ''ABCDEFGHIJKLMNOPQRSTUVWXYZ'' ''abcdefghijklmnopqrstuvwxyz'') c of
        Some l \<Rightarrow> l
      | None \<Rightarrow> c)"

definition lower :: "string \<Rightarrow> string" where
  "lower s = map lower_char s"

text \<open>\<^verbatim>\<open>s.rfind(c)\<close>: the index of the last occurrence of \<open>c\<close>, if there is one.\<close>

fun rfind :: "char \<Rightarrow> string \<Rightarrow> nat option" where
  "rfind c [] = None"
| "rfind c (x # xs) =
     (case rfind c xs of
        Some i \<Rightarrow> Some (Suc i)
      | None \<Rightarrow> if x = c then Some 0 else None)"

text \<open>\<^verbatim>\<open>s.rsplit(sep, 1)\<close>: one split at the last separator, or the string alone.\<close>

definition rsplit1 :: "char \<Rightarrow> string \<Rightarrow> string list" where
  "rsplit1 sep s =
     (case rfind sep s of
        None \<Rightarrow> [s]
      | Some i \<Rightarrow> [take i s, drop (Suc i) s])"

text \<open>\<^verbatim>\<open>xs[i]\<close> for a non-negative index: IndexError out of range.\<close>

definition getitem_list :: "'a list \<Rightarrow> nat \<Rightarrow> exn + 'a" where
  "getitem_list xs i =
     (if i < length xs then Inr (xs ! i) else Inl (IndexError ''list index out of range''))"

section \<open>Configuration\<close>

definition MAX_CONTENT_LENGTH :: nat where
  "MAX_CONTENT_LENGTH = 100 * 1024 * 1024"

definition UPLOAD_FOLDER :: string where
  "UPLOAD_FOLDER = ''uploads''"

definition ALLOWED_EXTENSIONS :: "string set" where
  "ALLOWED_EXTENSIONS = {''wav'', ''mp3'', ''flac'', ''m4a''}"

section \<open>The extension check\<close>

text \<open>
  \<^verbatim>\<open>allowed_file\<close> (lines 41-44). The conjunction is short-circuit: the split
  is indexed only when the name holds a dot.
\<close>

definition allowed_file :: "string \<Rightarrow> exn + bool" where
  "allowed_file filename =
     (if CHR ''.'' \<in> set filename
      then (case getitem_list (rsplit1 CHR ''.'' filename) 1 of
              Inl e \<Rightarrow> Inl e
            | Inr ext \<Rightarrow> Inr (lower ext \<in> ALLOWED_EXTENSIONS))
      else Inr False)"

text \<open>
  The check as the specification words it: the substring after the last dot.
\<close>

definition after_last_dot :: "string \<Rightarrow> string" where
  "after_last_dot s = rev (takeWhile (\<lambda>c. c \<noteq> CHR ''.'') (rev s))"

definition spec_allowed_file :: "string \<Rightarrow> bool" where
  "spec_allowed_file filename \<longleftrightarrow>
     CHR ''.'' \<in> set filename \<and> lower (after_last_dot filename) \<in> ALLOWED_EXTENSIONS"


section \<open>Values, arrays and the environment\<close>

text \<open>
  The values that travel in request and response bodies. A Python dict (or
  OrderedDict) is the list of its items in insertion order; its keys are distinct.
  \<open>JNull\<close> is \<^verbatim>\<open>None\<close>. The type \<open>'f\<close> stands for Python's float.
\<close>

datatype 'f json =
    JNull
  | JBool bool
  | JInt int
  | JFloat 'f
  | JStr string
  | JArr "'f json list"
  | JObj "(string \<times> 'f json) list"

type_synonym 'f dict = "(string \<times> 'f json) list"

text \<open>A view's return value: the body given to \<^verbatim>\<open>jsonify\<close> and the HTTP status.\<close>

type_synonym 'f response = "'f dict \<times> nat"

text \<open>
  What \<^verbatim>\<open>sf.read\<close> returns for the samples: a one-dimensional array for a
  single-channel source, a two-dimensional array (one row per frame, one column per
  channel) otherwise.
\<close>

datatype 'f ndarray = Arr1 "'f list" | Arr2 "'f list list"

definition array_len :: "'f ndarray \<Rightarrow> int" where
  "array_len a = (case a of Arr1 xs \<Rightarrow> int (length xs) | Arr2 rows \<Rightarrow> int (length rows))"

definition ndim :: "'f ndarray \<Rightarrow> nat" where
  "ndim a = (case a of Arr1 _ \<Rightarrow> 1 | Arr2 _ \<Rightarrow> 2)"

text \<open>\<^verbatim>\<open>a[:, 0]\<close>: column 0 of a two-dimensional array.\<close>

definition column0 :: "'f ndarray \<Rightarrow> exn + 'f ndarray" where
  "column0 a =
     (case a of
        Arr1 _ \<Rightarrow> Inl (IndexError ''too many indices for array'')
      | Arr2 rows \<Rightarrow>
          if [] \<in> set rows then Inl (IndexError ''index 0 is out of bounds for axis 1'')
          else Inr (Arr1 (map hd rows)))"

text \<open>The filesystem: the content stored at each path.\<close>

type_synonym fs = "string \<rightharpoonup> string"

text \<open>
  How \<^verbatim>\<open>file.save\<close> ends: the file is written; or opening the destination
  fails and nothing is created; or writing fails after the destination was created,
  with the bytes written so far.
\<close>

datatype save_outcome = SaveOk | SaveOpenFails exn | SaveWriteFails exn string

text \<open>
  Everything the module takes from outside: the libraries, the operating system, the
  clock and the global \<^verbatim>\<open>sigmos_estimator\<close> (\<open>None\<close> while it is unset).
\<close>

record 'f env =
  sigmos_estimator :: "('f ndarray \<Rightarrow> int \<Rightarrow> exn + (string \<rightharpoonup> 'f)) option"
  sf_decode :: "string \<Rightarrow> exn + ('f ndarray \<times> int)"
  sf_read_fd :: "int \<Rightarrow> exn + ('f ndarray \<times> int)"
  fd_open :: "int \<Rightarrow> bool"
  truediv :: "int \<Rightarrow> int \<Rightarrow> 'f"
  round_ndigits :: "'f \<Rightarrow> nat \<Rightarrow> 'f"
  float_is_zero :: "'f \<Rightarrow> bool"
  now_isoformat :: string
  format_exc :: "exn \<Rightarrow> string"
  py_str :: "'f json \<Rightarrow> string"
  str_hash :: "string \<Rightarrow> nat"
  uuid4 :: string
  secure_filename :: "string \<Rightarrow> string"
  save_outcome :: save_outcome
  remove_fails :: bool

section \<open>Python operations\<close>

text \<open>Truth value of a value (\<^verbatim>\<open>not data\<close>, \<^verbatim>\<open>if x\<close>).\<close>

definition truthy :: "'f env \<Rightarrow> 'f json \<Rightarrow> bool" where
  "truthy env v =
     (case v of
        JNull \<Rightarrow> False
      | JBool b \<Rightarrow> b
      | JInt n \<Rightarrow> n \<noteq> 0
      | JFloat x \<Rightarrow> \<not> float_is_zero env x
      | JStr s \<Rightarrow> s \<noteq> []
      | JArr xs \<Rightarrow> xs \<noteq> []
      | JObj kvs \<Rightarrow> kvs \<noteq> [])"

text \<open>
  \<^verbatim>\<open>k in v\<close> for a string \<open>k\<close>: a key of a dict, an element of a list, a substring
  of a string; TypeError for a value that is not a container.
\<close>

definition py_contains :: "string \<Rightarrow> 'f json \<Rightarrow> exn + bool" where
  "py_contains k v =
     (case v of
        JObj kvs \<Rightarrow> Inr (k \<in> set (map fst kvs))
      | JArr xs \<Rightarrow> Inr (JStr k \<in> set xs)
      | JStr s \<Rightarrow> Inr (sublist k s)
      | _ \<Rightarrow> Inl (TypeError ''argument is not iterable''))"

text \<open>\<^verbatim>\<open>v[k]\<close> for a string \<open>k\<close>.\<close>

definition py_getitem :: "'f json \<Rightarrow> string \<Rightarrow> exn + 'f json" where
  "py_getitem v k =
     (case v of
        JObj kvs \<Rightarrow> (case map_of kvs k of None \<Rightarrow> Inl (KeyError k) | Some x \<Rightarrow> Inr x)
      | JArr _ \<Rightarrow> Inl (TypeError ''list indices must be integers or slices, not str'')
      | JStr _ \<Rightarrow> Inl (TypeError ''string indices must be integers'')
      | _ \<Rightarrow> Inl (TypeError ''object is not subscriptable''))"

text \<open>\<^verbatim>\<open>d.get(k, default)\<close> and \<^verbatim>\<open>d[k]\<close> on a dict.\<close>

definition dict_get :: "'f dict \<Rightarrow> string \<Rightarrow> 'f json \<Rightarrow> 'f json" where
  "dict_get d k dflt = (case map_of d k of None \<Rightarrow> dflt | Some v \<Rightarrow> v)"

definition dict_getitem :: "(string \<rightharpoonup> 'v) \<Rightarrow> string \<Rightarrow> exn + 'v" where
  "dict_getitem d k = (case d k of None \<Rightarrow> Inl (KeyError k) | Some v \<Rightarrow> Inr v)"

text \<open>
  \<^verbatim>\<open>OrderedDict([(k1, e1), ...])\<close>: the item expressions are evaluated from left to
  right and the first exception ends the construction.
\<close>

fun odict :: "(string \<times> (exn + 'v)) list \<Rightarrow> exn + (string \<times> 'v) list" where
  "odict [] = Inr []"
| "odict ((k, m) # rest) =
     bind_exn m (\<lambda>v. bind_exn (odict rest) (\<lambda>kvs. Inr ((k, v) # kvs)))"

text \<open>\<^verbatim>\<open>sep.join(xs)\<close>.\<close>

fun join :: "string \<Rightarrow> string list \<Rightarrow> string" where
  "join sep [] = []"
| "join sep [x] = x"
| "join sep (x # y # ys) = x @ sep @ join sep (y # ys)"

text \<open>\<^verbatim>\<open>str(v)\<close> inside an f-string: a string is rendered as itself.\<close>

definition str_json :: "'f env \<Rightarrow> 'f json \<Rightarrow> string" where
  "str_json env v = (case v of JStr s \<Rightarrow> s | _ \<Rightarrow> py_str env v)"

text \<open>\<^verbatim>\<open>float(x)\<close> of a float, and \<^verbatim>\<open>int(n)\<close> of an int.\<close>

definition py_float :: "'f \<Rightarrow> 'f" where
  "py_float x = x"

definition py_int :: "int \<Rightarrow> int" where
  "py_int n = n"

text \<open>\<^verbatim>\<open>n / d\<close> on ints.\<close>

definition py_truediv :: "'f env \<Rightarrow> int \<Rightarrow> int \<Rightarrow> exn + 'f" where
  "py_truediv env n d =
     (if d = 0 then Inl (ZeroDivisionError ''division by zero'') else Inr (truediv env n d))"

text \<open>
  Iterating over the set \<open>ALLOWED_EXTENSIONS\<close>: Python fixes no order; the elements
  come in an order the string hash of the process decides.
\<close>

definition iter_ALLOWED_EXTENSIONS :: "'f env \<Rightarrow> string list" where
  "iter_ALLOWED_EXTENSIONS env = sort_key (str_hash env) [''wav'', ''mp3'', ''flac'', ''m4a'']"

section \<open>Operating system and libraries\<close>

text \<open>
  \<^verbatim>\<open>os.path.exists(p)\<close>: a string is looked up in the filesystem, an int (or bool)
  is a file descriptor, anything else is a TypeError of \<^verbatim>\<open>os.stat\<close>.
\<close>

definition os_path_exists :: "'f env \<Rightarrow> fs \<Rightarrow> 'f json \<Rightarrow> exn + bool" where
  "os_path_exists env files p =
     (case p of
        JStr s \<Rightarrow> Inr (files s \<noteq> None)
      | JInt n \<Rightarrow> Inr (fd_open env n)
      | JBool b \<Rightarrow> Inr (fd_open env (if b then 1 else 0))
      | _ \<Rightarrow> Inl (TypeError ''stat: path should be string, bytes, os.PathLike or integer''))"

text \<open>\<^verbatim>\<open>os.path.basename(p)\<close> (posixpath).\<close>

definition os_path_basename :: "'f json \<Rightarrow> exn + string" where
  "os_path_basename p =
     (case p of
        JStr s \<Rightarrow> Inr (case rfind CHR ''/'' s of None \<Rightarrow> s | Some i \<Rightarrow> drop (Suc i) s)
      | _ \<Rightarrow> Inl (TypeError ''expected str, bytes or os.PathLike object''))"

text \<open>\<^verbatim>\<open>os.path.join(a, b)\<close> (posixpath, two components).\<close>

definition os_path_join :: "string \<Rightarrow> string \<Rightarrow> string" where
  "os_path_join a b =
     (if b \<noteq> [] \<and> hd b = CHR ''/'' then b
      else if a = [] \<or> last a = CHR ''/'' then a @ b
      else a @ ''/'' @ b)"

text \<open>\<^verbatim>\<open>os.remove(p)\<close>: the new filesystem, or the exception.\<close>

definition os_remove :: "'f env \<Rightarrow> string \<Rightarrow> fs \<Rightarrow> exn + fs" where
  "os_remove env p files =
     (if files p = None then Inl (Raised ''No such file or directory'')
      else if remove_fails env then Inl (Raised ''Operation not permitted'')
      else Inr (files(p := None)))"

text \<open>\<^verbatim>\<open>sf.read(p)\<close>: decodes the content found at \<open>p\<close>.\<close>

definition sf_read :: "'f env \<Rightarrow> fs \<Rightarrow> 'f json \<Rightarrow> exn + ('f ndarray \<times> int)" where
  "sf_read env files p =
     (case p of
        JStr s \<Rightarrow>
          (case files s of
             None \<Rightarrow> Inl (Raised ''Error opening file: System error.'')
           | Some content \<Rightarrow> sf_decode env content)
      | JInt n \<Rightarrow> sf_read_fd env n
      | JBool b \<Rightarrow> sf_read_fd env (if b then 1 else 0)
      | _ \<Rightarrow> Inl (TypeError ''Invalid file''))"

text \<open>An uploaded file part (\<^verbatim>\<open>FileStorage\<close>) and \<^verbatim>\<open>file.save(path)\<close>.\<close>

record file_storage =
  filename :: string
  stream :: string

definition file_save :: "'f env \<Rightarrow> file_storage \<Rightarrow> string \<Rightarrow> fs \<Rightarrow> exn option \<times> fs" where
  "file_save env file p files =
     (case save_outcome env of
        SaveOk \<Rightarrow> (None, files(p \<mapsto> stream file))
      | SaveOpenFails e \<Rightarrow> (Some e, files)
      | SaveWriteFails e written \<Rightarrow> (Some e, files(p \<mapsto> written)))"

text \<open>\<^verbatim>\<open>sigmos_estimator.run(audio_data, sr=sample_rate)\<close>, on the global handle.\<close>

definition estimator_run :: "'f env \<Rightarrow> 'f ndarray \<Rightarrow> int \<Rightarrow> exn + (string \<rightharpoonup> 'f)" where
  "estimator_run env audio_data sr =
     (case sigmos_estimator env of
        None \<Rightarrow>
          Inl (AttributeError
            ([CHR 0x27] @ ''NoneType'' @ [CHR 0x27] @ '' object has no attribute '' @
             [CHR 0x27] @ ''run'' @ [CHR 0x27]))
      | Some run \<Rightarrow> run audio_data sr)"

section \<open>String literals of the module\<close>

definition msg_audio_missing :: string where
  "msg_audio_missing = [CHR 0xE9, CHR 0x9F, CHR 0xB3, CHR 0xE9, CHR 0xA2, CHR 0x91, CHR 0xE6, CHR 0x96, CHR 0x87, CHR 0xE4, CHR 0xBB, CHR 0xB6, CHR 0xE4, CHR 0xB8, CHR 0x8D, CHR 0xE5, CHR 0xAD, CHR 0x98, CHR 0xE5, CHR 0x9C, CHR 0xA8] @ '': ''"

definition key_OVRL :: string where
  "key_OVRL = [CHR 0xE6, CHR 0x95, CHR 0xB4, CHR 0xE4, CHR 0xBD, CHR 0x93, CHR 0xE8, CHR 0xB4, CHR 0xA8, CHR 0xE9, CHR 0x87, CHR 0x8F] @ ''_MOS_OVRL''"

definition key_SIG :: string where
  "key_SIG = [CHR 0xE4, CHR 0xBF, CHR 0xA1, CHR 0xE5, CHR 0x8F, CHR 0xB7, CHR 0xE8, CHR 0xB4, CHR 0xA8, CHR 0xE9, CHR 0x87, CHR 0x8F] @ ''_MOS_SIG''"

definition key_NOISE :: string where
  "key_NOISE = [CHR 0xE5, CHR 0x99, CHR 0xAA, CHR 0xE5, CHR 0xA3, CHR 0xB0, CHR 0xE7, CHR 0xA8, CHR 0x8B, CHR 0xE5, CHR 0xBA, CHR 0xA6] @ ''_MOS_NOISE''"

definition key_LOUD :: string where
  "key_LOUD = [CHR 0xE5, CHR 0x93, CHR 0x8D, CHR 0xE5, CHR 0xBA, CHR 0xA6] @ ''_MOS_LOUD''"

definition key_COL :: string where
  "key_COL = [CHR 0xE7, CHR 0x9D, CHR 0x80, CHR 0xE8, CHR 0x89, CHR 0xB2, CHR 0xE5, CHR 0xBA, CHR 0xA6] @ ''_MOS_COL''"

definition key_DISC :: string where
  "key_DISC = [CHR 0xE4, CHR 0xB8, CHR 0x8D, CHR 0xE8, CHR 0xBF, CHR 0x9E, CHR 0xE7, CHR 0xBB, CHR 0xAD, CHR 0xE6, CHR 0x80, CHR 0xA7] @ ''_MOS_DISC''"

definition key_REVERB :: string where
  "key_REVERB = [CHR 0xE6, CHR 0xB7, CHR 0xB7, CHR 0xE5, CHR 0x93, CHR 0x8D] @ ''_MOS_REVERB''"

definition msg_no_file :: string where
  "msg_no_file = [CHR 0xE6, CHR 0xB2, CHR 0xA1, CHR 0xE6, CHR 0x9C, CHR 0x89, CHR 0xE4, CHR 0xB8, CHR 0x8A, CHR 0xE4, CHR 0xBC, CHR 0xA0, CHR 0xE6, CHR 0x96, CHR 0x87, CHR 0xE4, CHR 0xBB, CHR 0xB6]"

definition msg_no_name :: string where
  "msg_no_name = [CHR 0xE6, CHR 0xB2, CHR 0xA1, CHR 0xE6, CHR 0x9C, CHR 0x89, CHR 0xE9, CHR 0x80, CHR 0x89, CHR 0xE6, CHR 0x8B, CHR 0xA9, CHR 0xE6, CHR 0x96, CHR 0x87, CHR 0xE4, CHR 0xBB, CHR 0xB6]"

definition msg_bad_format :: string where
  "msg_bad_format = [CHR 0xE4, CHR 0xB8, CHR 0x8D, CHR 0xE6, CHR 0x94, CHR 0xAF, CHR 0xE6, CHR 0x8C, CHR 0x81, CHR 0xE7, CHR 0x9A, CHR 0x84, CHR 0xE6, CHR 0x96, CHR 0x87, CHR 0xE4, CHR 0xBB, CHR 0xB6, CHR 0xE6, CHR 0xA0, CHR 0xBC, CHR 0xE5, CHR 0xBC, CHR 0x8F, CHR 0xEF, CHR 0xBC, CHR 0x8C, CHR 0xE6, CHR 0x94, CHR 0xAF, CHR 0xE6, CHR 0x8C, CHR 0x81, CHR 0xE7, CHR 0x9A, CHR 0x84, CHR 0xE6, CHR 0xA0, CHR 0xBC, CHR 0xE5, CHR 0xBC, CHR 0x8F] @ '': ''"

definition msg_processing :: string where
  "msg_processing = [CHR 0xE5, CHR 0xA4, CHR 0x84, CHR 0xE7, CHR 0x90, CHR 0x86, CHR 0xE6, CHR 0x96, CHR 0x87, CHR 0xE4, CHR 0xBB, CHR 0xB6, CHR 0xE6, CHR 0x97, CHR 0xB6, CHR 0xE5, CHR 0x87, CHR 0xBA, CHR 0xE9, CHR 0x94, CHR 0x99] @ '': ''"

definition msg_need_param :: string where
  "msg_need_param = [CHR 0xE8, CHR 0xAF, CHR 0xB7, CHR 0xE6, CHR 0x8F, CHR 0x90, CHR 0xE4, CHR 0xBE, CHR 0x9B] @ ''file_path'' @ [CHR 0xE5, CHR 0x8F, CHR 0x82, CHR 0xE6, CHR 0x95, CHR 0xB0]"

definition msg_not_found :: string where
  "msg_not_found = [CHR 0xE6, CHR 0x96, CHR 0x87, CHR 0xE4, CHR 0xBB, CHR 0xB6, CHR 0xE4, CHR 0xB8, CHR 0x8D, CHR 0xE5, CHR 0xAD, CHR 0x98, CHR 0xE5, CHR 0x9C, CHR 0xA8] @ '': ''"

definition msg_too_large :: string where
  "msg_too_large = [CHR 0xE6, CHR 0x96, CHR 0x87, CHR 0xE4, CHR 0xBB, CHR 0xB6, CHR 0xE5, CHR 0xA4, CHR 0xAA, CHR 0xE5, CHR 0xA4, CHR 0xA7, CHR 0xEF, CHR 0xBC, CHR 0x8C, CHR 0xE6, CHR 0x9C, CHR 0x80, CHR 0xE5, CHR 0xA4, CHR 0xA7, CHR 0xE5, CHR 0x85, CHR 0x81, CHR 0xE8, CHR 0xAE, CHR 0xB8] @ '' ''"

definition msg_internal :: string where
  "msg_internal = [CHR 0xE5, CHR 0x86, CHR 0x85, CHR 0xE9, CHR 0x83, CHR 0xA8, CHR 0xE6, CHR 0x9C, CHR 0x8D, CHR 0xE5, CHR 0x8A, CHR 0xA1, CHR 0xE5, CHR 0x99, CHR 0xA8, CHR 0xE9, CHR 0x94, CHR 0x99, CHR 0xE8, CHR 0xAF, CHR 0xAF]"

definition msg_unhealthy :: string where
  "msg_unhealthy = ''SigMOS'' @ [CHR 0xE6, CHR 0xA8, CHR 0xA1, CHR 0xE5, CHR 0x9E, CHR 0x8B, CHR 0xE6, CHR 0x9C, CHR 0xAA, CHR 0xE5, CHR 0x88, CHR 0x9D, CHR 0xE5, CHR 0xA7, CHR 0x8B, CHR 0xE5, CHR 0x8C, CHR 0x96]"

definition msg_healthy :: string where
  "msg_healthy = [CHR 0xE6, CHR 0x9C, CHR 0x8D, CHR 0xE5, CHR 0x8A, CHR 0xA1, CHR 0xE8, CHR 0xBF, CHR 0x90, CHR 0xE8, CHR 0xA1, CHR 0x8C, CHR 0xE6, CHR 0xAD, CHR 0xA3, CHR 0xE5, CHR 0xB8, CHR 0xB8]"

section \<open>Evaluation of one audio file\<close>

text \<open>
  \<^verbatim>\<open>evaluate_audio_file\<close> (lines 67-136) in three parts: the file information
  and the channel reduction (lines 77-92), the scoring and the assembly of the
  result (lines 95-129), and the function itself with its existence test and its
  exception handler.
\<close>

text \<open>Lines 80-85: the dict literal; its values are evaluated in the order written.\<close>

definition file_info_of :: "'f env \<Rightarrow> 'f json \<Rightarrow> 'f ndarray \<Rightarrow> int \<Rightarrow> exn + 'f dict" where
  "file_info_of env audio_file_path audio_data sample_rate =
     bind_exn (os_path_basename audio_file_path) (\<lambda>name.
     bind_exn (py_truediv env (array_len audio_data) sample_rate) (\<lambda>q.
       Inr [(''filename'', JStr name),
            (''file_size_samples'', JInt (array_len audio_data)),
            (''sample_rate'', JInt (py_int sample_rate)),
            (''duration_seconds'', JFloat (round_ndigits env q 2))]))"

text \<open>
  Lines 77-92: read, describe, reduce to one channel. The result is the file
  information, the samples that go to the estimator, and the sample rate.
\<close>

definition prepare ::
  "'f env \<Rightarrow> fs \<Rightarrow> 'f json \<Rightarrow> exn + ('f dict \<times> 'f ndarray \<times> int)" where
  "prepare env files audio_file_path =
     bind_exn (sf_read env files audio_file_path) (\<lambda>(audio_data, sample_rate).
     bind_exn (file_info_of env audio_file_path audio_data sample_rate) (\<lambda>file_info.
       if ndim audio_data > 1
       then bind_exn (column0 audio_data) (\<lambda>mono.
              Inr (file_info @ [(''converted_to_mono'', JBool True)], mono, sample_rate))
       else Inr (file_info @ [(''converted_to_mono'', JBool False)], audio_data, sample_rate)))"

text \<open>Lines 101-109 and 111-119: the two ordered score mappings.\<close>

definition mos_scores_of :: "'f env \<Rightarrow> (string \<rightharpoonup> 'f) \<Rightarrow> exn + 'f dict" where
  "mos_scores_of env result =
     odict
       [(key_OVRL, bind_exn (dict_getitem result ''MOS_OVRL'') (\<lambda>v. Inr (JFloat (round_ndigits env v 3)))),
        (key_SIG, bind_exn (dict_getitem result ''MOS_SIG'') (\<lambda>v. Inr (JFloat (round_ndigits env v 3)))),
        (key_NOISE, bind_exn (dict_getitem result ''MOS_NOISE'') (\<lambda>v. Inr (JFloat (round_ndigits env v 3)))),
        (key_LOUD, bind_exn (dict_getitem result ''MOS_LOUD'') (\<lambda>v. Inr (JFloat (round_ndigits env v 3)))),
        (key_COL, bind_exn (dict_getitem result ''MOS_COL'') (\<lambda>v. Inr (JFloat (round_ndigits env v 3)))),
        (key_DISC, bind_exn (dict_getitem result ''MOS_DISC'') (\<lambda>v. Inr (JFloat (round_ndigits env v 3)))),
        (key_REVERB, bind_exn (dict_getitem result ''MOS_REVERB'') (\<lambda>v. Inr (JFloat (round_ndigits env v 3))))]"

definition raw_scores_of :: "(string \<rightharpoonup> 'f) \<Rightarrow> exn + 'f dict" where
  "raw_scores_of result =
     odict
       [(''MOS_OVRL'', bind_exn (dict_getitem result ''MOS_OVRL'') (\<lambda>v. Inr (JFloat (py_float v)))),
        (''MOS_SIG'', bind_exn (dict_getitem result ''MOS_SIG'') (\<lambda>v. Inr (JFloat (py_float v)))),
        (''MOS_NOISE'', bind_exn (dict_getitem result ''MOS_NOISE'') (\<lambda>v. Inr (JFloat (py_float v)))),
        (''MOS_LOUD'', bind_exn (dict_getitem result ''MOS_LOUD'') (\<lambda>v. Inr (JFloat (py_float v)))),
        (''MOS_COL'', bind_exn (dict_getitem result ''MOS_COL'') (\<lambda>v. Inr (JFloat (py_float v)))),
        (''MOS_DISC'', bind_exn (dict_getitem result ''MOS_DISC'') (\<lambda>v. Inr (JFloat (py_float v)))),
        (''MOS_REVERB'', bind_exn (dict_getitem result ''MOS_REVERB'') (\<lambda>v. Inr (JFloat (py_float v))))]"

text \<open>Lines 97-129: the result assembled from the estimator's scores.\<close>

definition assemble :: "'f env \<Rightarrow> 'f dict \<Rightarrow> (string \<rightharpoonup> 'f) \<Rightarrow> exn + 'f dict" where
  "assemble env file_info result =
     bind_exn (mos_scores_of env result) (\<lambda>mos_scores.
     bind_exn (raw_scores_of result) (\<lambda>raw_scores.
       Inr [(''success'', JBool True),
            (''timestamp'', JStr (now_isoformat env)),
            (''file_info'', JObj file_info),
            (''mos_scores'', JObj mos_scores),
            (''raw_scores'', JObj raw_scores)]))"

text \<open>Lines 95-129: run the estimator on the samples and assemble the result.\<close>

definition score :: "'f env \<Rightarrow> 'f dict \<Rightarrow> 'f ndarray \<Rightarrow> int \<Rightarrow> exn + 'f dict" where
  "score env file_info audio_data sample_rate =
     bind_exn (estimator_run env audio_data sample_rate) (assemble env file_info)"

text \<open>The body of the \<^verbatim>\<open>try\<close> (lines 72-129).\<close>

definition evaluate_audio_file_try :: "'f env \<Rightarrow> fs \<Rightarrow> 'f json \<Rightarrow> exn + 'f dict" where
  "evaluate_audio_file_try env files audio_file_path =
     bind_exn (os_path_exists env files audio_file_path) (\<lambda>ex.
       if \<not> ex
       then Inr [(''error'', JStr (msg_audio_missing @ str_json env audio_file_path))]
       else bind_exn (prepare env files audio_file_path) (\<lambda>(file_info, audio_data, sample_rate).
              score env file_info audio_data sample_rate))"

definition evaluate_audio_file :: "'f env \<Rightarrow> fs \<Rightarrow> 'f json \<Rightarrow> 'f dict" where
  "evaluate_audio_file env files audio_file_path =
     (case evaluate_audio_file_try env files audio_file_path of
        Inr evaluation_result \<Rightarrow> evaluation_result
      | Inl e \<Rightarrow>
          [(''success'', JBool False),
           (''error'', JStr (str_exn e)),
           (''traceback'', JStr (format_exc env e))])"

section \<open>The views\<close>

text \<open>\<^verbatim>\<open>health_check\<close> (lines 154-169).\<close>

definition health_check :: "'f env \<Rightarrow> 'f response" where
  "health_check env =
     (case sigmos_estimator env of
        None \<Rightarrow>
          ([(''status'', JStr ''unhealthy''), (''message'', JStr msg_unhealthy)], 503)
      | Some _ \<Rightarrow>
          ([(''status'', JStr ''healthy''), (''message'', JStr msg_healthy),
            (''model_loaded'', JBool True)], 200))"

text \<open>
  The last lines of both evaluation views: \<^verbatim>\<open>result.get("success", False)\<close> decides
  between status 200 and status 500.
\<close>

definition respond :: "'f env \<Rightarrow> 'f dict \<Rightarrow> 'f response" where
  "respond env result =
     (if truthy env (dict_get result ''success'' (JBool False)) then (result, 200)
      else (result, 500))"

text \<open>A multipart request: the items of \<^verbatim>\<open>request.files\<close>.\<close>

record upload_request =
  request_files :: "(string \<times> file_storage) list"

text \<open>
  \<^verbatim>\<open>evaluate_uploaded_file\<close> (lines 193-245), the \<^verbatim>\<open>try\<close> first (lines 220-245).
  The views return the response and the filesystem they leave behind.
\<close>

definition upload_path :: "'f env \<Rightarrow> file_storage \<Rightarrow> string" where
  "upload_path env file =
     (let filename' = secure_filename env (filename file);
          unique_filename = uuid4 env @ ''_'' @ filename'
      in os_path_join UPLOAD_FOLDER unique_filename)"

definition evaluate_uploaded_file_try ::
  "'f env \<Rightarrow> fs \<Rightarrow> file_storage \<Rightarrow> 'f response \<times> fs" where
  "evaluate_uploaded_file_try env files file =
     (let file_path = upload_path env file in
      case file_save env file file_path files of
        (Some e, files1) \<Rightarrow>
          (([(''success'', JBool False),
             (''error'', JStr (msg_processing @ str_exn e))], 500), files1)
      | (None, files1) \<Rightarrow>
          (let result = evaluate_audio_file env files1 (JStr file_path);
               files2 = (case os_remove env file_path files1 of
                           Inl _ \<Rightarrow> files1
                         | Inr files' \<Rightarrow> files')
           in (respond env result, files2)))"

definition evaluate_uploaded_file ::
  "'f env \<Rightarrow> fs \<Rightarrow> upload_request \<Rightarrow> (exn + 'f response) \<times> fs" where
  "evaluate_uploaded_file env files request =
     (case map_of (request_files request) ''file'' of
        None \<Rightarrow>
          (Inr ([(''success'', JBool False), (''error'', JStr msg_no_file)], 400), files)
      | Some file \<Rightarrow>
          if filename file = []
          then (Inr ([(''success'', JBool False), (''error'', JStr msg_no_name)], 400), files)
          else (case allowed_file (filename file) of
                  Inl e \<Rightarrow> (Inl e, files)
                | Inr ok \<Rightarrow>
                    if \<not> ok
                    then (Inr ([(''success'', JBool False),
                                (''error'', JStr (msg_bad_format @
                                   join '', '' (iter_ALLOWED_EXTENSIONS env)))], 400), files)
                    else (case evaluate_uploaded_file_try env files file of
                            (r, files') \<Rightarrow> (Inr r, files'))))"

text \<open>
  \<^verbatim>\<open>evaluate_file_path\<close> (lines 247-273). The argument is what
  \<^verbatim>\<open>request.get_json()\<close> returned. The view never writes to the filesystem.
\<close>

definition evaluate_file_path :: "'f env \<Rightarrow> fs \<Rightarrow> 'f json \<Rightarrow> exn + 'f response" where
  "evaluate_file_path env files data =
     bind_exn (if \<not> truthy env data then Inr True
               else bind_exn (py_contains ''file_path'' data) (\<lambda>c. Inr (\<not> c))) (\<lambda>missing.
       if missing
       then Inr ([(''success'', JBool False), (''error'', JStr msg_need_param)], 400)
       else bind_exn (py_getitem data ''file_path'') (\<lambda>file_path.
            bind_exn (os_path_exists env files file_path) (\<lambda>ex.
              if \<not> ex
              then Inr ([(''success'', JBool False),
                         (''error'', JStr (msg_not_found @ str_json env file_path))], 404)
              else Inr (respond env (evaluate_audio_file env files file_path)))))"

text \<open>
  \<^verbatim>\<open>internal_error\<close> (lines 283-289), and what Flask does with a view's outcome:
  an exception that leaves the view is answered by the handler registered for 500.
\<close>

definition internal_error :: "exn \<Rightarrow> 'f response" where
  "internal_error e = ([(''success'', JBool False), (''error'', JStr msg_internal)], 500)"

text \<open>
  \<^verbatim>\<open>too_large\<close> (lines 275-281), the handler registered for 413; the framework
  calls it for a request body above \<open>MAX_CONTENT_LENGTH\<close>. The f-string renders
  \<open>MAX_CONTENT_LENGTH // (1024 * 1024)\<close>, which is 100.
\<close>

definition too_large :: "exn \<Rightarrow> 'f response" where
  "too_large e =
     ([(''success'', JBool False), (''error'', JStr (msg_too_large @ ''100'' @ '' MB''))], 413)"

definition dispatch :: "exn + 'f response \<Rightarrow> 'f response" where
  "dispatch outcome = (case outcome of Inl e \<Rightarrow> internal_error e | Inr r \<Rightarrow> r)"

definition post_evaluate :: "'f env \<Rightarrow> fs \<Rightarrow> upload_request \<Rightarrow> 'f response \<times> fs" where
  "post_evaluate env files request =
     (case evaluate_uploaded_file env files request of
        (outcome, files') \<Rightarrow> (dispatch outcome, files'))"

definition post_evaluate_path :: "'f env \<Rightarrow> fs \<Rightarrow> 'f json \<Rightarrow> 'f response" where
  "post_evaluate_path env files data = dispatch (evaluate_file_path env files data)"

section \<open>Properties stated by the specification\<close>

text \<open>
  The failure shape of a response body: \<open>success\<close> is present and false, \<open>error\<close> is
  a string, and no key other than \<open>success\<close>, \<open>error\<close> and \<open>traceback\<close> occurs.
\<close>

definition failure_shape :: "'f dict \<Rightarrow> bool" where
  "failure_shape body \<longleftrightarrow>
     map_of body ''success'' = Some (JBool False) \<and>
     (case map_of body ''error'' of Some (JStr _) \<Rightarrow> True | _ \<Rightarrow> False) \<and>
     set (map fst body) \<subseteq> {''success'', ''error'', ''traceback''}"

text \<open>
  The fixed order of the score dimensions, the keys of the raw mapping and the keys of
  the display mapping (a localized label, an underscore, the raw key).
\<close>

definition RAW_KEYS :: "string list" where
  "RAW_KEYS = [''MOS_OVRL'', ''MOS_SIG'', ''MOS_NOISE'', ''MOS_LOUD'', ''MOS_COL'', ''MOS_DISC'', ''MOS_REVERB'']"

definition DISPLAY_KEYS :: "string list" where
  "DISPLAY_KEYS = [key_OVRL, key_SIG, key_NOISE, key_LOUD, key_COL, key_DISC, key_REVERB]"

definition SCORE_ORDER :: "string list" where
  "SCORE_ORDER = [''OVRL'', ''SIG'', ''NOISE'', ''LOUD'', ''COL'', ''DISC'', ''REVERB'']"

text \<open>
  The duration of a file information is its sample count divided by its sample rate,
  rounded to 2 decimals.
\<close>

definition duration_consistent :: "'f env \<Rightarrow> 'f dict \<Rightarrow> bool" where
  "duration_consistent env file_info =
     (case (map_of file_info ''file_size_samples'', map_of file_info ''sample_rate'',
            map_of file_info ''duration_seconds'') of
        (Some (JInt n), Some (JInt sr), Some (JFloat d)) \<Rightarrow>
          sr \<noteq> 0 \<and> d = round_ndigits env (truediv env n sr) 2
      | _ \<Rightarrow> False)"

text \<open>
  The text of the \<open>error\<close> field of a body, and whether a text names every allowed
  extension.
\<close>

definition error_text :: "'f dict \<Rightarrow> string" where
  "error_text body = (case map_of body ''error'' of Some (JStr m) \<Rightarrow> m | _ \<Rightarrow> [])"

definition names_allowed_extensions :: "string \<Rightarrow> bool" where
  "names_allowed_extensions m \<longleftrightarrow> (\<forall>e \<in> ALLOWED_EXTENSIONS. sublist e m)"

section \<open>An example environment\<close>

text \<open>
  A concrete environment on which the theorems are instantiated: floats are
  rationals (with some rounding to decimals), two files decode (one mono, one stereo),
  a third does not, and the estimator returns the same seven scores for every input.
  Two upload requests follow: one with an allowed extension, one without.
\<close>

definition example_scores :: "string \<rightharpoonup> rat" where
  "example_scores =
     map_of [(''MOS_COL'', 7 / 2), (''MOS_DISC'', 4), (''MOS_LOUD'', 9 / 2), (''MOS_NOISE'', 3),
             (''MOS_REVERB'', 5 / 2), (''MOS_SIG'', 13 / 4), (''MOS_OVRL'', 25 / 8)]"

definition example_env :: "rat env" where
  "example_env =
     \<lparr>sigmos_estimator = Some (\<lambda>audio_data sr. Inr example_scores),
      sf_decode = (\<lambda>content.
         if content = ''mono'' then Inr (Arr1 [1, 2, 3], 2)
         else if content = ''stereo'' then Inr (Arr2 [[1, 5], [2, 6]], 2)
         else Inl (Raised ''Format not recognised.'')),
      sf_read_fd = (\<lambda>n. Inl (Raised ''Format not recognised.'')),
      fd_open = (\<lambda>n. 0 \<le> n \<and> n \<le> 2),
      truediv = (\<lambda>n d. of_int n / of_int d),
      round_ndigits = (\<lambda>x k. of_int (round (x * 10 ^ k)) / 10 ^ k),
      float_is_zero = (\<lambda>x. x = 0),
      now_isoformat = ''2024-01-01T00:00:00'',
      format_exc = (\<lambda>e. ''Traceback (most recent call last): '' @ str_exn e),
      py_str = (\<lambda>v. ''?''),
      str_hash = length,
      uuid4 = ''1b4e28ba'',
      secure_filename = (\<lambda>name. name),
      save_outcome = SaveOk,
      remove_fails = False\<rparr>"

definition example_files :: fs where
  "example_files = [''a.wav'' \<mapsto> ''mono'', ''b.wav'' \<mapsto> ''stereo'', ''c.wav'' \<mapsto> ''noise'']"

text \<open>
  An estimator whose answer depends on the samples it is given, and the example
  environment with this estimator as its engine.
\<close>

definition example_estimator :: "rat ndarray \<Rightarrow> int \<Rightarrow> exn + (string \<rightharpoonup> rat)" where
  "example_estimator audio_data sr =
     (case audio_data of
        Arr1 xs \<Rightarrow>
          if xs = [] then Inl (Raised ''empty input'')
          else Inr (example_scores(''MOS_LOUD'' \<mapsto> hd xs))
      | Arr2 rows \<Rightarrow> Inl (Raised ''expected one channel''))"

definition example_listening_env :: "rat env" where
  "example_listening_env = example_env\<lparr>sigmos_estimator := Some example_estimator\<rparr>"

text \<open>The example environment with a disk that fills while an upload is written.\<close>

definition example_full_disk_env :: "rat env" where
  "example_full_disk_env =
     example_env\<lparr>save_outcome := SaveWriteFails (Raised ''No space left on device'') ''mo''\<rparr>"

definition example_upload :: upload_request where
  "example_upload =
     \<lparr>request_files = [(''file'', \<lparr>filename = ''take1.WAV'', stream = ''mono''\<rparr>)]\<rparr>"

definition example_text_upload :: upload_request where
  "example_text_upload =
     \<lparr>request_files = [(''file'', \<lparr>filename = ''notes.txt'', stream = ''hello''\<rparr>)]\<rparr>"

section \<open>Properties of the extension check\<close>

lemma rfind_None: "rfind c s = None \<longleftrightarrow> c \<notin> set s"
  by (induction s) (auto split: option.splits)

lemma rfind_Some_drop:
  "rfind c s = Some i \<Longrightarrow> drop (Suc i) s = rev (takeWhile (\<lambda>x. x \<noteq> c) (rev s))"
proof (induction s arbitrary: i)
  case Nil
  then show ?case by simp
next
  case (Cons x xs)
  show ?case
  proof (cases "rfind c xs")
    case None
    then have "c \<notin> set xs" by (simp add: rfind_None)
    with Cons.prems None show ?thesis
      by (auto simp: takeWhile_append split: if_splits)
  next
    case (Some j)
    then have "c \<in> set xs" using rfind_None[of c xs] by auto
    with Cons.prems Some Cons.IH[OF Some] show ?thesis
      by (auto simp: takeWhile_append)
  qed
qed

lemma allowed_file_eq_spec: "allowed_file f = Inr (spec_allowed_file f)"
proof (cases "rfind CHR ''.'' f")
  case None
  then show ?thesis
    by (simp add: allowed_file_def spec_allowed_file_def rfind_None)
next
  case (Some i)
  then have "CHR ''.'' \<in> set f" using rfind_None[of "CHR ''.''" f] by auto
  with Some rfind_Some_drop[OF Some] show ?thesis
    by (simp add: allowed_file_def spec_allowed_file_def rsplit1_def getitem_list_def
        after_last_dot_def)
qed

text \<open>
  C10. The filename check never raises, and it accepts a name exactly when the name
  holds a dot and the text after its last dot, lowercased, is one of wav, mp3, flac,
  m4a. The name \<open>audio\<close> is rejected and the name \<open>.wav\<close> is accepted.
\<close>

theorem C10_allowed_file_iff:
  "allowed_file f =
     Inr (CHR ''.'' \<in> set f \<and>
          lower (after_last_dot f) \<in> {''wav'', ''mp3'', ''flac'', ''m4a''})
   \<and> allowed_file ''audio'' = Inr False
   \<and> allowed_file ''.wav'' = Inr True"
proof -
  have a: "allowed_file f =
     Inr (CHR ''.'' \<in> set f \<and>
          lower (after_last_dot f) \<in> {''wav'', ''mp3'', ''flac'', ''m4a''})"
    using allowed_file_eq_spec[of f]
    by (simp add: spec_allowed_file_def ALLOWED_EXTENSIONS_def)
  have b: "allowed_file ''audio'' = Inr False"
    by (simp add: allowed_file_def)
  have c: "allowed_file ''.wav'' = Inr True"
    by (simp add: allowed_file_def rsplit1_def getitem_list_def lower_def lower_char_def
        ALLOWED_EXTENSIONS_def)
  from a b c show ?thesis by simp
qed

section \<open>Exceptions and score mappings\<close>

lemma bind_exn_Inr_iff:
  "bind_exn m f = Inr y \<longleftrightarrow> (\<exists>x. m = Inr x \<and> f x = Inr y)"
  by (cases m) (simp_all add: bind_exn_def)

lemma bind_exn_Inl [simp]: "bind_exn (Inl e) f = Inl e"
  by (simp add: bind_exn_def)

lemma bind_exn_Inr [simp]: "bind_exn (Inr x) f = f x"
  by (simp add: bind_exn_def)

lemma dict_getitem_Inr_iff: "dict_getitem d k = Inr v \<longleftrightarrow> d k = Some v"
  by (simp add: dict_getitem_def split: option.splits)

lemma mos_scores_of_Inr:
  assumes "mos_scores_of env result = Inr mos"
  shows "\<exists>xs. map result [''MOS_OVRL'', ''MOS_SIG'', ''MOS_NOISE'', ''MOS_LOUD'', ''MOS_COL'',
                 ''MOS_DISC'', ''MOS_REVERB''] = map Some xs
           \<and> mos = zip [key_OVRL, key_SIG, key_NOISE, key_LOUD, key_COL, key_DISC, key_REVERB]
                     (map (\<lambda>x. JFloat (round_ndigits env x 3)) xs)"
proof -
  from assms obtain v1 v2 v3 v4 v5 v6 v7 where
    v: "result ''MOS_OVRL'' = Some v1" "result ''MOS_SIG'' = Some v2"
       "result ''MOS_NOISE'' = Some v3" "result ''MOS_LOUD'' = Some v4"
       "result ''MOS_COL'' = Some v5" "result ''MOS_DISC'' = Some v6"
       "result ''MOS_REVERB'' = Some v7"
    and m: "mos = [(key_OVRL, JFloat (round_ndigits env v1 3)), (key_SIG, JFloat (round_ndigits env v2 3)),
              (key_NOISE, JFloat (round_ndigits env v3 3)), (key_LOUD, JFloat (round_ndigits env v4 3)),
              (key_COL, JFloat (round_ndigits env v5 3)), (key_DISC, JFloat (round_ndigits env v6 3)),
              (key_REVERB, JFloat (round_ndigits env v7 3))]"
    unfolding mos_scores_of_def
    by (auto simp: bind_exn_Inr_iff dict_getitem_Inr_iff)
  show ?thesis
    by (rule exI[of _ "[v1, v2, v3, v4, v5, v6, v7]"]) (simp add: v m)
qed

lemma raw_scores_of_Inr:
  assumes "raw_scores_of result = Inr raw"
  shows "\<exists>xs. map result [''MOS_OVRL'', ''MOS_SIG'', ''MOS_NOISE'', ''MOS_LOUD'', ''MOS_COL'',
                 ''MOS_DISC'', ''MOS_REVERB''] = map Some xs
           \<and> raw = zip [''MOS_OVRL'', ''MOS_SIG'', ''MOS_NOISE'', ''MOS_LOUD'', ''MOS_COL'',
                 ''MOS_DISC'', ''MOS_REVERB''] (map JFloat xs)"
proof -
  from assms obtain v1 v2 v3 v4 v5 v6 v7 where
    v: "result ''MOS_OVRL'' = Some v1" "result ''MOS_SIG'' = Some v2"
       "result ''MOS_NOISE'' = Some v3" "result ''MOS_LOUD'' = Some v4"
       "result ''MOS_COL'' = Some v5" "result ''MOS_DISC'' = Some v6"
       "result ''MOS_REVERB'' = Some v7"
    and m: "raw = [(''MOS_OVRL'', JFloat v1), (''MOS_SIG'', JFloat v2),
              (''MOS_NOISE'', JFloat v3), (''MOS_LOUD'', JFloat v4),
              (''MOS_COL'', JFloat v5), (''MOS_DISC'', JFloat v6),
              (''MOS_REVERB'', JFloat v7)]"
    unfolding raw_scores_of_def
    by (auto simp: bind_exn_Inr_iff dict_getitem_Inr_iff py_float_def)
  show ?thesis
    by (rule exI[of _ "[v1, v2, v3, v4, v5, v6, v7]"]) (simp add: v m)
qed

lemma score_Inr:
  assumes "score env fi a sr = Inr body"
  shows "\<exists>result mos raw.
           estimator_run env a sr = Inr result \<and>
           mos_scores_of env result = Inr mos \<and>
           raw_scores_of result = Inr raw \<and>
           body = [(''success'', JBool True), (''timestamp'', JStr (now_isoformat env)),
                   (''file_info'', JObj fi), (''mos_scores'', JObj mos),
                   (''raw_scores'', JObj raw)]"
  using assms unfolding score_def assemble_def by (auto simp: bind_exn_Inr_iff)

text \<open>
  The three ways \<^verbatim>\<open>evaluate_audio_file\<close> ends: an exception was caught, the path
  was missing, or the estimator ran and the result was assembled.
\<close>

lemma evaluate_audio_file_cases:
  obtains
    (raised) e where "evaluate_audio_file_try env files p = Inl e"
      "evaluate_audio_file env files p =
         [(''success'', JBool False), (''error'', JStr (str_exn e)),
          (''traceback'', JStr (format_exc env e))]"
  | (missing) "os_path_exists env files p = Inr False"
      "evaluate_audio_file env files p =
         [(''error'', JStr (msg_audio_missing @ str_json env p))]"
  | (scored) fi a sr where "os_path_exists env files p = Inr True"
      "prepare env files p = Inr (fi, a, sr)"
      "score env fi a sr = Inr (evaluate_audio_file env files p)"
proof (cases "evaluate_audio_file_try env files p")
  case (Inl e)
  then show ?thesis using raised by (simp add: evaluate_audio_file_def)
next
  case (Inr body)
  then have b: "evaluate_audio_file env files p = body"
    by (simp add: evaluate_audio_file_def)
  from Inr obtain ex where ex: "os_path_exists env files p = Inr ex"
    unfolding evaluate_audio_file_try_def by (auto simp: bind_exn_Inr_iff)
  show ?thesis
  proof (cases ex)
    case False
    with Inr ex b show ?thesis using missing
      by (simp add: evaluate_audio_file_try_def)
  next
    case True
    with Inr ex obtain fi a sr where "prepare env files p = Inr (fi, a, sr)"
      "score env fi a sr = Inr body"
      unfolding evaluate_audio_file_try_def by (auto simp: bind_exn_Inr_iff)
    with True ex b show ?thesis using scored by simp
  qed
qed

lemma respond_scored:
  assumes "score env fi a sr = Inr body"
  shows "respond env body = (body, 200)"
  using score_Inr[OF assms] by (auto simp: respond_def dict_get_def truthy_def)

lemma respond_raised:
  "respond env [(''success'', JBool False), (''error'', JStr m), (''traceback'', JStr t)]
     = ([(''success'', JBool False), (''error'', JStr m), (''traceback'', JStr t)], 500)"
  by (simp add: respond_def dict_get_def truthy_def)

lemma respond_missing:
  "respond env [(''error'', JStr m)] = ([(''error'', JStr m)], 500)"
  by (simp add: respond_def dict_get_def truthy_def)

lemma failure_shape_raised:
  "failure_shape [(''success'', JBool False), (''error'', JStr m), (''traceback'', JStr t)]"
  by (simp add: failure_shape_def)

lemma failure_shape_plain:
  "failure_shape [(''success'', JBool False), (''error'', JStr m)]"
  by (simp add: failure_shape_def)

text \<open>
  When the path exists, the response to an evaluation is a success with status 200 or
  a failure body with status 500.
\<close>

lemma respond_evaluate_exists:
  assumes "os_path_exists env files p = Inr True"
  shows "(snd (respond env (evaluate_audio_file env files p)) = 200 \<and>
          map_of (fst (respond env (evaluate_audio_file env files p))) ''success'' = Some (JBool True))
       \<or> (snd (respond env (evaluate_audio_file env files p)) = 500 \<and>
          failure_shape (fst (respond env (evaluate_audio_file env files p))))"
proof (cases rule: evaluate_audio_file_cases[of env files p])
  case (raised e)
  then show ?thesis by (simp add: respond_raised failure_shape_raised)
next
  case missing
  with assms show ?thesis by simp
next
  case (scored fi a sr)
  from respond_scored[OF scored(3)] score_Inr[OF scored(3)] show ?thesis by auto
qed

section \<open>Successful evaluations\<close>

lemma success_scored:
  assumes "map_of (evaluate_audio_file env files p) ''success'' = Some (JBool True)"
  obtains fi a sr where "os_path_exists env files p = Inr True"
    "prepare env files p = Inr (fi, a, sr)"
    "score env fi a sr = Inr (evaluate_audio_file env files p)"
proof (cases rule: evaluate_audio_file_cases[of env files p])
  case (raised e)
  with assms show ?thesis by simp
next
  case missing
  with assms show ?thesis by simp
next
  case (scored fi a sr)
  then show ?thesis using that by blast
qed

lemma map_Some_inj: "map Some xs = map Some ys \<Longrightarrow> xs = ys"
  by (simp add: inj_map_eq_map)

lemma success_scores:
  assumes "map_of (evaluate_audio_file env files p) ''success'' = Some (JBool True)"
  shows "\<exists>fi a sr result xs.
           length xs = 7 \<and>
           prepare env files p = Inr (fi, a, sr) \<and>
           estimator_run env a sr = Inr result \<and>
           map result [''MOS_OVRL'', ''MOS_SIG'', ''MOS_NOISE'', ''MOS_LOUD'', ''MOS_COL'',
                       ''MOS_DISC'', ''MOS_REVERB''] = map Some xs \<and>
           map_of (evaluate_audio_file env files p) ''raw_scores'' =
             Some (JObj (zip RAW_KEYS (map JFloat xs))) \<and>
           map_of (evaluate_audio_file env files p) ''mos_scores'' =
             Some (JObj (zip DISPLAY_KEYS (map (\<lambda>x. JFloat (round_ndigits env x 3)) xs)))"
proof -
  from assms obtain fi a sr where p: "prepare env files p = Inr (fi, a, sr)"
    and s: "score env fi a sr = Inr (evaluate_audio_file env files p)"
    by (rule success_scored)
  from score_Inr[OF s] obtain result mos raw where
    r: "estimator_run env a sr = Inr result"
    and m: "mos_scores_of env result = Inr mos"
    and w: "raw_scores_of result = Inr raw"
    and b: "evaluate_audio_file env files p =
              [(''success'', JBool True), (''timestamp'', JStr (now_isoformat env)),
               (''file_info'', JObj fi), (''mos_scores'', JObj mos), (''raw_scores'', JObj raw)]"
    by blast
  from mos_scores_of_Inr[OF m] obtain xs where
    xs: "map result [''MOS_OVRL'', ''MOS_SIG'', ''MOS_NOISE'', ''MOS_LOUD'', ''MOS_COL'',
                     ''MOS_DISC'', ''MOS_REVERB''] = map Some xs"
    and mos: "mos = zip DISPLAY_KEYS (map (\<lambda>x. JFloat (round_ndigits env x 3)) xs)"
    unfolding DISPLAY_KEYS_def by blast
  from raw_scores_of_Inr[OF w] obtain ys where
    ys: "map result [''MOS_OVRL'', ''MOS_SIG'', ''MOS_NOISE'', ''MOS_LOUD'', ''MOS_COL'',
                     ''MOS_DISC'', ''MOS_REVERB''] = map Some ys"
    and raw: "raw = zip RAW_KEYS (map JFloat ys)"
    unfolding RAW_KEYS_def by blast
  from xs ys have "xs = ys" by (metis map_Some_inj)
  moreover have "length xs = 7"
  proof -
    have "length (map Some xs) = 7" by (simp flip: xs)
    then show ?thesis by simp
  qed
  ultimately show ?thesis using p r xs mos raw b by auto
qed

text \<open>
  C5. In every successful evaluation the estimator returned a value for each of the
  seven dimensions; the raw mapping carries these values unchanged and the display
  mapping carries, at the same position, the same value rounded to 3 decimals.
\<close>

theorem C5_display_is_rounded_raw:
  assumes "map_of (evaluate_audio_file env files p) ''success'' = Some (JBool True)"
  shows "\<exists>fi a sr result xs.
           prepare env files p = Inr (fi, a, sr) \<and>
           estimator_run env a sr = Inr result \<and>
           map result [''MOS_OVRL'', ''MOS_SIG'', ''MOS_NOISE'', ''MOS_LOUD'', ''MOS_COL'',
                       ''MOS_DISC'', ''MOS_REVERB''] = map Some xs \<and>
           map_of (evaluate_audio_file env files p) ''raw_scores'' =
             Some (JObj (zip RAW_KEYS (map JFloat xs))) \<and>
           map_of (evaluate_audio_file env files p) ''mos_scores'' =
             Some (JObj (zip DISPLAY_KEYS (map (\<lambda>x. JFloat (round_ndigits env x 3)) xs)))"
  using success_scores[OF assms] by blast

lemma example_mono_body:
  "evaluate_audio_file example_env example_files (JStr ''a.wav'') =
     [(''success'', JBool True), (''timestamp'', JStr ''2024-01-01T00:00:00''),
      (''file_info'', JObj [(''filename'', JStr ''a.wav''), (''file_size_samples'', JInt 3),
         (''sample_rate'', JInt 2), (''duration_seconds'', JFloat (3 / 2)),
         (''converted_to_mono'', JBool False)]),
      (''mos_scores'', JObj [(key_OVRL, JFloat (25 / 8)), (key_SIG, JFloat (13 / 4)),
         (key_NOISE, JFloat 3), (key_LOUD, JFloat (9 / 2)), (key_COL, JFloat (7 / 2)),
         (key_DISC, JFloat 4), (key_REVERB, JFloat (5 / 2))]),
      (''raw_scores'', JObj [(''MOS_OVRL'', JFloat (25 / 8)), (''MOS_SIG'', JFloat (13 / 4)),
         (''MOS_NOISE'', JFloat 3), (''MOS_LOUD'', JFloat (9 / 2)), (''MOS_COL'', JFloat (7 / 2)),
         (''MOS_DISC'', JFloat 4), (''MOS_REVERB'', JFloat (5 / 2))])]"
  by (simp add: evaluate_audio_file_def evaluate_audio_file_try_def os_path_exists_def
      example_files_def prepare_def sf_read_def example_env_def file_info_of_def
      os_path_basename_def py_truediv_def array_len_def py_int_def ndim_def score_def
      assemble_def estimator_run_def mos_scores_of_def raw_scores_of_def dict_getitem_def example_scores_def
      py_float_def)

theorem C5_witness:
  "map_of (evaluate_audio_file example_env example_files (JStr ''a.wav'')) ''success'' =
     Some (JBool True) \<and>
   (\<exists>fi a sr result xs.
      prepare example_env example_files (JStr ''a.wav'') = Inr (fi, a, sr) \<and>
      estimator_run example_env a sr = Inr result \<and>
      map result [''MOS_OVRL'', ''MOS_SIG'', ''MOS_NOISE'', ''MOS_LOUD'', ''MOS_COL'',
                  ''MOS_DISC'', ''MOS_REVERB''] = map Some xs \<and>
      map_of (evaluate_audio_file example_env example_files (JStr ''a.wav'')) ''raw_scores'' =
        Some (JObj (zip RAW_KEYS (map JFloat xs))) \<and>
      map_of (evaluate_audio_file example_env example_files (JStr ''a.wav'')) ''mos_scores'' =
        Some (JObj (zip DISPLAY_KEYS
                (map (\<lambda>x. JFloat (round_ndigits example_env x 3)) xs))))"
proof -
  have h: "map_of (evaluate_audio_file example_env example_files (JStr ''a.wav'')) ''success'' =
     Some (JBool True)"
    by (simp add: example_mono_body)
  from h C5_display_is_rounded_raw[OF h] show ?thesis by (rule conjI)
qed

lemma example_stereo_body:
  "evaluate_audio_file example_env example_files (JStr ''b.wav'') =
     [(''success'', JBool True), (''timestamp'', JStr ''2024-01-01T00:00:00''),
      (''file_info'', JObj [(''filename'', JStr ''b.wav''), (''file_size_samples'', JInt 2),
         (''sample_rate'', JInt 2), (''duration_seconds'', JFloat 1),
         (''converted_to_mono'', JBool True)]),
      (''mos_scores'', JObj [(key_OVRL, JFloat (25 / 8)), (key_SIG, JFloat (13 / 4)),
         (key_NOISE, JFloat 3), (key_LOUD, JFloat (9 / 2)), (key_COL, JFloat (7 / 2)),
         (key_DISC, JFloat 4), (key_REVERB, JFloat (5 / 2))]),
      (''raw_scores'', JObj [(''MOS_OVRL'', JFloat (25 / 8)), (''MOS_SIG'', JFloat (13 / 4)),
         (''MOS_NOISE'', JFloat 3), (''MOS_LOUD'', JFloat (9 / 2)), (''MOS_COL'', JFloat (7 / 2)),
         (''MOS_DISC'', JFloat 4), (''MOS_REVERB'', JFloat (5 / 2))])]"
  by (simp add: evaluate_audio_file_def evaluate_audio_file_try_def os_path_exists_def
      example_files_def prepare_def sf_read_def example_env_def file_info_of_def
      os_path_basename_def py_truediv_def array_len_def py_int_def ndim_def score_def
      assemble_def estimator_run_def mos_scores_of_def raw_scores_of_def dict_getitem_def example_scores_def
      py_float_def column0_def)

lemma display_keys_suffix:
  "list_all2 (\<lambda>k d. suffix (''_MOS_'' @ d) k) DISPLAY_KEYS SCORE_ORDER"
  by (simp add: DISPLAY_KEYS_def SCORE_ORDER_def key_OVRL_def key_SIG_def key_NOISE_def
      key_LOUD_def key_COL_def key_DISC_def key_REVERB_def suffix_def)

lemma success_keys:
  assumes "map_of (evaluate_audio_file env files p) ''success'' = Some (JBool True)"
  shows "\<exists>mos raw.
           map_of (evaluate_audio_file env files p) ''mos_scores'' = Some (JObj mos) \<and>
           map_of (evaluate_audio_file env files p) ''raw_scores'' = Some (JObj raw) \<and>
           map fst mos = DISPLAY_KEYS \<and> map fst raw = RAW_KEYS"
proof -
  from success_scores[OF assms] obtain xs :: "'a list" where
    l: "length xs = 7"
    and raw: "map_of (evaluate_audio_file env files p) ''raw_scores'' =
             Some (JObj (zip RAW_KEYS (map JFloat xs)))"
    and mos: "map_of (evaluate_audio_file env files p) ''mos_scores'' =
             Some (JObj (zip DISPLAY_KEYS (map (\<lambda>x. JFloat (round_ndigits env x 3)) xs)))"
    by blast
  from l have "map fst (zip RAW_KEYS (map JFloat xs)) = RAW_KEYS"
    by (simp add: RAW_KEYS_def)
  moreover from l have
    "map fst (zip DISPLAY_KEYS (map (\<lambda>x. JFloat (round_ndigits env x 3)) xs)) = DISPLAY_KEYS"
    by (simp add: DISPLAY_KEYS_def)
  ultimately show ?thesis using raw mos by auto
qed

text \<open>
  C6. In every successful evaluation the keys of the display mapping and of the raw
  mapping come in the fixed order OVRL, SIG, NOISE, LOUD, COL, DISC, REVERB: the raw
  keys are \<open>MOS_\<close> followed by the dimension, each display key ends with \<open>_MOS_\<close>
  followed by the dimension at the same position, and two successful evaluations,
  whatever their inputs and environments, have the same key sequences.
\<close>

theorem C6_fixed_field_order:
  assumes "map_of (evaluate_audio_file env files p) ''success'' = Some (JBool True)"
    and "map_of (evaluate_audio_file env' files' p') ''success'' = Some (JBool True)"
  shows "\<exists>mos raw mos' raw'.
           map_of (evaluate_audio_file env files p) ''mos_scores'' = Some (JObj mos) \<and>
           map_of (evaluate_audio_file env files p) ''raw_scores'' = Some (JObj raw) \<and>
           map_of (evaluate_audio_file env' files' p') ''mos_scores'' = Some (JObj mos') \<and>
           map_of (evaluate_audio_file env' files' p') ''raw_scores'' = Some (JObj raw') \<and>
           map fst raw = map (\<lambda>d. ''MOS_'' @ d) SCORE_ORDER \<and>
           list_all2 (\<lambda>k d. suffix (''_MOS_'' @ d) k) (map fst mos) SCORE_ORDER \<and>
           map fst mos' = map fst mos \<and> map fst raw' = map fst raw"
proof -
  from success_keys[OF assms(1)] obtain mos raw where
    a: "map_of (evaluate_audio_file env files p) ''mos_scores'' = Some (JObj mos)"
       "map_of (evaluate_audio_file env files p) ''raw_scores'' = Some (JObj raw)"
       "map fst mos = DISPLAY_KEYS" "map fst raw = RAW_KEYS"
    by blast
  from success_keys[OF assms(2)] obtain mos' raw' where
    b: "map_of (evaluate_audio_file env' files' p') ''mos_scores'' = Some (JObj mos')"
       "map_of (evaluate_audio_file env' files' p') ''raw_scores'' = Some (JObj raw')"
       "map fst mos' = DISPLAY_KEYS" "map fst raw' = RAW_KEYS"
    by blast
  have r: "RAW_KEYS = map (\<lambda>d. ''MOS_'' @ d) SCORE_ORDER"
    by (simp add: RAW_KEYS_def SCORE_ORDER_def)
  from a b r display_keys_suffix show ?thesis by simp
qed

theorem C6_witness:
  "map_of (evaluate_audio_file example_env example_files (JStr ''a.wav'')) ''success'' =
     Some (JBool True) \<and>
   map_of (evaluate_audio_file example_env example_files (JStr ''b.wav'')) ''success'' =
     Some (JBool True) \<and>
   (\<exists>mos raw mos' raw'.
      map_of (evaluate_audio_file example_env example_files (JStr ''a.wav'')) ''mos_scores'' =
        Some (JObj mos) \<and>
      map_of (evaluate_audio_file example_env example_files (JStr ''a.wav'')) ''raw_scores'' =
        Some (JObj raw) \<and>
      map_of (evaluate_audio_file example_env example_files (JStr ''b.wav'')) ''mos_scores'' =
        Some (JObj mos') \<and>
      map_of (evaluate_audio_file example_env example_files (JStr ''b.wav'')) ''raw_scores'' =
        Some (JObj raw') \<and>
      map fst raw = map (\<lambda>d. ''MOS_'' @ d) SCORE_ORDER \<and>
      list_all2 (\<lambda>k d. suffix (''_MOS_'' @ d) k) (map fst mos) SCORE_ORDER \<and>
      map fst mos' = map fst mos \<and> map fst raw' = map fst raw)"
proof -
  have h1: "map_of (evaluate_audio_file example_env example_files (JStr ''a.wav'')) ''success'' =
     Some (JBool True)"
    by (simp add: example_mono_body)
  have h2: "map_of (evaluate_audio_file example_env example_files (JStr ''b.wav'')) ''success'' =
     Some (JBool True)"
    by (simp add: example_stereo_body)
  from h1 h2 C6_fixed_field_order[OF h1 h2] show ?thesis by blast
qed

section \<open>File information and channel reduction\<close>

lemma file_info_of_Inr:
  assumes "file_info_of env p audio sr = Inr fi"
  shows "\<exists>name. os_path_basename p = Inr name \<and> sr \<noteq> 0 \<and>
           fi = [(''filename'', JStr name),
                 (''file_size_samples'', JInt (array_len audio)),
                 (''sample_rate'', JInt sr),
                 (''duration_seconds'', JFloat (round_ndigits env (truediv env (array_len audio) sr) 2))]"
  using assms unfolding file_info_of_def py_truediv_def py_int_def
  by (auto simp: bind_exn_Inr_iff split: if_splits)

lemma prepare_Inr:
  assumes "prepare env files p = Inr (fi, a, sr)"
  shows "\<exists>audio info.
           sf_read env files p = Inr (audio, sr) \<and>
           file_info_of env p audio sr = Inr info \<and>
           (case audio of
              Arr1 xs \<Rightarrow> a = audio \<and> fi = info @ [(''converted_to_mono'', JBool False)]
            | Arr2 rows \<Rightarrow> [] \<notin> set rows \<and> a = Arr1 (map hd rows) \<and>
                fi = info @ [(''converted_to_mono'', JBool True)])"
  using assms unfolding prepare_def ndim_def column0_def
  by (auto simp: bind_exn_Inr_iff split: ndarray.splits if_splits)

lemma prepare_duration:
  assumes "prepare env files p = Inr (fi, a, sr)"
  shows "\<exists>audio. sf_read env files p = Inr (audio, sr) \<and>
           map_of fi ''file_size_samples'' = Some (JInt (array_len audio)) \<and>
           map_of fi ''sample_rate'' = Some (JInt sr) \<and>
           duration_consistent env fi"
proof -
  from prepare_Inr[OF assms] obtain audio info where
    r: "sf_read env files p = Inr (audio, sr)"
    and i: "file_info_of env p audio sr = Inr info"
    and c: "(case audio of
              Arr1 xs \<Rightarrow> a = audio \<and> fi = info @ [(''converted_to_mono'', JBool False)]
            | Arr2 rows \<Rightarrow> [] \<notin> set rows \<and> a = Arr1 (map hd rows) \<and>
                fi = info @ [(''converted_to_mono'', JBool True)])"
    by blast
  from c have f: "fi = info @ [(''converted_to_mono'', JBool False)] \<or>
            fi = info @ [(''converted_to_mono'', JBool True)]"
    by (cases audio) auto
  from file_info_of_Inr[OF i] f r show ?thesis
    by (auto simp: duration_consistent_def)
qed

lemma example_mono_prepare:
  "prepare example_env example_files (JStr ''a.wav'') =
     Inr ([(''filename'', JStr ''a.wav''), (''file_size_samples'', JInt 3),
           (''sample_rate'', JInt 2), (''duration_seconds'', JFloat (3 / 2)),
           (''converted_to_mono'', JBool False)], Arr1 [1, 2, 3], 2)"
  by (simp add: example_files_def prepare_def sf_read_def example_env_def file_info_of_def
      os_path_basename_def py_truediv_def array_len_def py_int_def ndim_def)

text \<open>
  C3. Every file information the evaluation builds from a decoded input reports the
  length of the decoded array as \<open>file_size_samples\<close>, the decoded rate as
  \<open>sample_rate\<close>, and as \<open>duration_seconds\<close> the quotient of the two rounded to 2
  decimals; the file information of every successful result is of this kind.
\<close>

theorem C3_duration_seconds:
  "(prepare env files p = Inr (fi, a, sr) \<longrightarrow>
      (\<exists>audio. sf_read env files p = Inr (audio, sr) \<and>
         map_of fi ''file_size_samples'' = Some (JInt (array_len audio)) \<and>
         map_of fi ''sample_rate'' = Some (JInt sr) \<and>
         duration_consistent env fi)) \<and>
   (map_of (evaluate_audio_file env files p) ''success'' = Some (JBool True) \<longrightarrow>
      (\<exists>file_info.
         map_of (evaluate_audio_file env files p) ''file_info'' = Some (JObj file_info) \<and>
         duration_consistent env file_info))"
proof (intro conjI impI)
  assume "prepare env files p = Inr (fi, a, sr)"
  then show "\<exists>audio. sf_read env files p = Inr (audio, sr) \<and>
         map_of fi ''file_size_samples'' = Some (JInt (array_len audio)) \<and>
         map_of fi ''sample_rate'' = Some (JInt sr) \<and>
         duration_consistent env fi"
    by (rule prepare_duration)
next
  assume "map_of (evaluate_audio_file env files p) ''success'' = Some (JBool True)"
  then obtain fi a sr where p: "prepare env files p = Inr (fi, a, sr)"
    and s: "score env fi a sr = Inr (evaluate_audio_file env files p)"
    by (rule success_scored)
  from score_Inr[OF s] have
    "map_of (evaluate_audio_file env files p) ''file_info'' = Some (JObj fi)"
    by auto
  with prepare_duration[OF p] show "\<exists>file_info.
         map_of (evaluate_audio_file env files p) ''file_info'' = Some (JObj file_info) \<and>
         duration_consistent env file_info"
    by blast
qed

theorem C3_witness:
  "prepare example_env example_files (JStr ''a.wav'') =
     Inr ([(''filename'', JStr ''a.wav''), (''file_size_samples'', JInt 3),
           (''sample_rate'', JInt 2), (''duration_seconds'', JFloat (3 / 2)),
           (''converted_to_mono'', JBool False)], Arr1 [1, 2, 3], 2) \<and>
   map_of (evaluate_audio_file example_env example_files (JStr ''a.wav'')) ''success'' =
     Some (JBool True) \<and>
   duration_consistent example_env
     [(''filename'', JStr ''a.wav''), (''file_size_samples'', JInt 3),
      (''sample_rate'', JInt 2), (''duration_seconds'', JFloat (3 / 2)),
      (''converted_to_mono'', JBool False)] \<and>
   (\<exists>file_info.
      map_of (evaluate_audio_file example_env example_files (JStr ''a.wav'')) ''file_info'' =
        Some (JObj file_info) \<and>
      duration_consistent example_env file_info)"
proof -
  have h1: "prepare example_env example_files (JStr ''a.wav'') =
     Inr ([(''filename'', JStr ''a.wav''), (''file_size_samples'', JInt 3),
           (''sample_rate'', JInt 2), (''duration_seconds'', JFloat (3 / 2)),
           (''converted_to_mono'', JBool False)], Arr1 [1, 2, 3], 2)"
    by (rule example_mono_prepare)
  have h2: "map_of (evaluate_audio_file example_env example_files (JStr ''a.wav'')) ''success'' =
     Some (JBool True)"
    by (simp add: example_mono_body)
  from h1 h2 C3_duration_seconds[of example_env example_files "JStr ''a.wav''"
      "[(''filename'', JStr ''a.wav''), (''file_size_samples'', JInt 3),
        (''sample_rate'', JInt 2), (''duration_seconds'', JFloat (3 / 2)),
        (''converted_to_mono'', JBool False)]" "Arr1 [1, 2, 3]" 2]
  show ?thesis by blast
qed

lemma sf_read_exists:
  assumes "sf_read env files (JStr s) = Inr r"
  shows "os_path_exists env files (JStr s) = Inr True"
  using assms by (auto simp: sf_read_def os_path_exists_def split: option.splits)

lemma try_after_prepare:
  assumes "os_path_exists env files p = Inr True" and "prepare env files p = Inr (fi, a, sr)"
  shows "evaluate_audio_file_try env files p =
           bind_exn (estimator_run env a sr) (assemble env fi)"
  using assms by (simp add: evaluate_audio_file_try_def score_def)

lemma map_hd_nth: "[] \<notin> set rows \<Longrightarrow> map hd rows = map (\<lambda>frame. frame ! 0) rows"
  by (induction rows) (auto simp: hd_conv_nth)

lemma prepare_multi:
  assumes "sf_read env files (JStr s) = Inr (Arr2 rows, sr)" "sr \<noteq> 0" "[] \<notin> set rows"
  shows "\<exists>fi. map_of fi ''converted_to_mono'' = Some (JBool True) \<and>
           map_of fi ''file_size_samples'' = Some (JInt (int (length rows))) \<and>
           prepare env files (JStr s) = Inr (fi, Arr1 (map (\<lambda>frame. frame ! 0) rows), sr)"
  using assms map_hd_nth[OF assms(3)]
  by (simp add: prepare_def file_info_of_def os_path_basename_def py_truediv_def ndim_def
      column0_def array_len_def)

lemma prepare_mono:
  assumes "sf_read env files (JStr s) = Inr (Arr1 xs, sr)" "sr \<noteq> 0"
  shows "\<exists>fi. map_of fi ''converted_to_mono'' = Some (JBool False) \<and>
           map_of fi ''file_size_samples'' = Some (JInt (int (length xs))) \<and>
           prepare env files (JStr s) = Inr (fi, Arr1 xs, sr)"
  using assms
  by (simp add: prepare_def file_info_of_def os_path_basename_def py_truediv_def ndim_def
      array_len_def)

lemma estimator_run_loaded:
  "sigmos_estimator env = Some run \<Longrightarrow> estimator_run env audio_data sr = run audio_data sr"
  by (simp add: estimator_run_def)

text \<open>
  C4. With an engine \<open>run\<close> loaded: a decoded input with several channels (every
  frame holding at least one sample, the rate not zero) gets \<open>converted_to_mono\<close>
  true, and the engine is called on exactly the first sample of every frame, in
  order. A decoded input with one channel gets \<open>converted_to_mono\<close> false, its
  reported sample count is the number of decoded frames, and the engine is called on
  the decoded samples unchanged. In both cases the evaluation is what the assembly
  makes of the engine's answer to that call.
\<close>

theorem C4_channel_reduction:
  "(sigmos_estimator env = Some run \<and>
    sf_read env files (JStr s) = Inr (Arr2 rows, sr) \<and> sr \<noteq> 0 \<and> [] \<notin> set rows \<longrightarrow>
      (\<exists>fi. map_of fi ''converted_to_mono'' = Some (JBool True) \<and>
         prepare env files (JStr s) = Inr (fi, Arr1 (map (\<lambda>frame. frame ! 0) rows), sr) \<and>
         evaluate_audio_file_try env files (JStr s) =
           bind_exn (run (Arr1 (map (\<lambda>frame. frame ! 0) rows)) sr) (assemble env fi))) \<and>
   (sigmos_estimator env = Some run \<and>
    sf_read env files (JStr s) = Inr (Arr1 xs, sr) \<and> sr \<noteq> 0 \<longrightarrow>
      (\<exists>fi. map_of fi ''converted_to_mono'' = Some (JBool False) \<and>
         map_of fi ''file_size_samples'' = Some (JInt (int (length xs))) \<and>
         prepare env files (JStr s) = Inr (fi, Arr1 xs, sr) \<and>
         evaluate_audio_file_try env files (JStr s) =
           bind_exn (run (Arr1 xs) sr) (assemble env fi)))"
proof (intro conjI impI)
  assume a: "sigmos_estimator env = Some run \<and>
    sf_read env files (JStr s) = Inr (Arr2 rows, sr) \<and> sr \<noteq> 0 \<and> [] \<notin> set rows"
  then obtain fi where
    f: "map_of fi ''converted_to_mono'' = Some (JBool True)"
    and p: "prepare env files (JStr s) = Inr (fi, Arr1 (map (\<lambda>frame. frame ! 0) rows), sr)"
    using prepare_multi[of env files s rows sr] by blast
  from a have r: "estimator_run env (Arr1 (map (\<lambda>frame. frame ! 0) rows)) sr =
      run (Arr1 (map (\<lambda>frame. frame ! 0) rows)) sr"
    by (simp add: estimator_run_loaded)
  from a have "os_path_exists env files (JStr s) = Inr True"
    by (blast intro: sf_read_exists)
  from try_after_prepare[OF this p] r have
    "evaluate_audio_file_try env files (JStr s) =
       bind_exn (run (Arr1 (map (\<lambda>frame. frame ! 0) rows)) sr) (assemble env fi)"
    by simp
  with f p
  show "\<exists>fi. map_of fi ''converted_to_mono'' = Some (JBool True) \<and>
         prepare env files (JStr s) = Inr (fi, Arr1 (map (\<lambda>frame. frame ! 0) rows), sr) \<and>
         evaluate_audio_file_try env files (JStr s) =
           bind_exn (run (Arr1 (map (\<lambda>frame. frame ! 0) rows)) sr) (assemble env fi)"
    by blast
next
  assume a: "sigmos_estimator env = Some run \<and>
    sf_read env files (JStr s) = Inr (Arr1 xs, sr) \<and> sr \<noteq> 0"
  then obtain fi where
    f: "map_of fi ''converted_to_mono'' = Some (JBool False)"
       "map_of fi ''file_size_samples'' = Some (JInt (int (length xs)))"
    and p: "prepare env files (JStr s) = Inr (fi, Arr1 xs, sr)"
    using prepare_mono[of env files s xs sr] by blast
  from a have r: "estimator_run env (Arr1 xs) sr = run (Arr1 xs) sr"
    by (simp add: estimator_run_loaded)
  from a have "os_path_exists env files (JStr s) = Inr True"
    by (blast intro: sf_read_exists)
  from try_after_prepare[OF this p] r have
    "evaluate_audio_file_try env files (JStr s) = bind_exn (run (Arr1 xs) sr) (assemble env fi)"
    by simp
  with f p
  show "\<exists>fi. map_of fi ''converted_to_mono'' = Some (JBool False) \<and>
         map_of fi ''file_size_samples'' = Some (JInt (int (length xs))) \<and>
         prepare env files (JStr s) = Inr (fi, Arr1 xs, sr) \<and>
         evaluate_audio_file_try env files (JStr s) =
           bind_exn (run (Arr1 xs) sr) (assemble env fi)"
    by blast
qed

lemma example_sf_read_stereo:
  "sf_read example_listening_env example_files (JStr ''b.wav'') =
     Inr (Arr2 [[1, 5], [2, 6]], 2)"
  by (simp add: sf_read_def example_files_def example_listening_env_def example_env_def)

lemma example_sf_read_mono:
  "sf_read example_listening_env example_files (JStr ''a.wav'') = Inr (Arr1 [1, 2, 3], 2)"
  by (simp add: sf_read_def example_files_def example_listening_env_def example_env_def)

lemma example_engine_loaded:
  "sigmos_estimator example_listening_env = Some example_estimator"
  by (simp add: example_listening_env_def)

theorem C4_witness:
  "sigmos_estimator example_listening_env = Some example_estimator \<and>
   (sf_read example_listening_env example_files (JStr ''b.wav'') =
      Inr (Arr2 [[1, 5], [2, 6]], 2) \<and>
    (2::int) \<noteq> 0 \<and> [] \<notin> set [[1, 5], [2, 6::rat]] \<and>
    (\<exists>fi. map_of fi ''converted_to_mono'' = Some (JBool True) \<and>
       prepare example_listening_env example_files (JStr ''b.wav'') =
         Inr (fi, Arr1 [1, 2], 2) \<and>
       evaluate_audio_file_try example_listening_env example_files (JStr ''b.wav'') =
         bind_exn (example_estimator (Arr1 [1, 2]) 2) (assemble example_listening_env fi))) \<and>
   (sf_read example_listening_env example_files (JStr ''a.wav'') = Inr (Arr1 [1, 2, 3], 2) \<and>
    (\<exists>fi. map_of fi ''converted_to_mono'' = Some (JBool False) \<and>
       map_of fi ''file_size_samples'' = Some (JInt 3) \<and>
       prepare example_listening_env example_files (JStr ''a.wav'') =
         Inr (fi, Arr1 [1, 2, 3], 2) \<and>
       evaluate_audio_file_try example_listening_env example_files (JStr ''a.wav'') =
         bind_exn (example_estimator (Arr1 [1, 2, 3]) 2)
           (assemble example_listening_env fi)))"
proof -
  have e: "sigmos_estimator example_listening_env = Some example_estimator"
    by (rule example_engine_loaded)
  have m: "sf_read example_listening_env example_files (JStr ''b.wav'') =
      Inr (Arr2 [[1, 5], [2, 6]], 2) \<and>
    (2::int) \<noteq> 0 \<and> [] \<notin> set [[1, 5], [2, 6::rat]]"
    by (simp add: example_sf_read_stereo)
  have o: "sf_read example_listening_env example_files (JStr ''a.wav'') =
      Inr (Arr1 [1, 2, 3], 2) \<and> (2::int) \<noteq> 0"
    by (simp add: example_sf_read_mono)
  from e m
    C4_channel_reduction[of example_listening_env example_estimator example_files "''b.wav''"
      "[[1, 5], [2, 6]]" 2]
  have 1: "\<exists>fi. map_of fi ''converted_to_mono'' = Some (JBool True) \<and>
       prepare example_listening_env example_files (JStr ''b.wav'') =
         Inr (fi, Arr1 [1, 2], 2) \<and>
       evaluate_audio_file_try example_listening_env example_files (JStr ''b.wav'') =
         bind_exn (example_estimator (Arr1 [1, 2]) 2) (assemble example_listening_env fi)"
    by simp
  from e o
    C4_channel_reduction[of example_listening_env example_estimator example_files "''a.wav''"
      _ 2 "[1, 2, 3]"]
  have 2: "\<exists>fi. map_of fi ''converted_to_mono'' = Some (JBool False) \<and>
       map_of fi ''file_size_samples'' = Some (JInt 3) \<and>
       prepare example_listening_env example_files (JStr ''a.wav'') =
         Inr (fi, Arr1 [1, 2, 3], 2) \<and>
       evaluate_audio_file_try example_listening_env example_files (JStr ''a.wav'') =
         bind_exn (example_estimator (Arr1 [1, 2, 3]) 2)
           (assemble example_listening_env fi)"
    by simp
  from e m o 1 2 show ?thesis by blast
qed

section \<open>The upload view\<close>

lemma upload_try_saved:
  assumes "save_outcome env = SaveOk"
  shows "evaluate_uploaded_file_try env files upload =
           (respond env (evaluate_audio_file env (files(upload_path env upload \<mapsto> stream upload))
              (JStr (upload_path env upload))),
            if remove_fails env then files(upload_path env upload \<mapsto> stream upload)
            else files(upload_path env upload := None))"
  using assms
  by (simp add: evaluate_uploaded_file_try_def file_save_def os_remove_def Let_def)

lemma upload_try_not_saved:
  assumes "save_outcome env \<noteq> SaveOk"
  shows "\<exists>e. fst (evaluate_uploaded_file_try env files upload) =
           ([(''success'', JBool False), (''error'', JStr (msg_processing @ str_exn e))], 500)"
  using assms
  by (cases "save_outcome env")
     (auto simp: evaluate_uploaded_file_try_def file_save_def Let_def)

lemma upload_try_shape:
  "(snd (fst (evaluate_uploaded_file_try env files upload)) = 200 \<and>
      map_of (fst (fst (evaluate_uploaded_file_try env files upload))) ''success'' = Some (JBool True))
   \<or> (snd (fst (evaluate_uploaded_file_try env files upload)) = 500 \<and>
      failure_shape (fst (fst (evaluate_uploaded_file_try env files upload))))"
proof (cases "save_outcome env = SaveOk")
  case True
  have "os_path_exists env (files(upload_path env upload \<mapsto> stream upload))
          (JStr (upload_path env upload)) = Inr True"
    by (simp add: os_path_exists_def)
  from respond_evaluate_exists[OF this] upload_try_saved[OF True, of files upload]
  show ?thesis by simp
next
  case False
  from upload_try_not_saved[OF False, of files upload] show ?thesis
    by (auto simp: failure_shape_plain)
qed

text \<open>The four ways the upload view ends.\<close>

lemma evaluate_uploaded_file_cases:
  obtains
    (no_file) "map_of (request_files request) ''file'' = None"
      "evaluate_uploaded_file env files request =
         (Inr ([(''success'', JBool False), (''error'', JStr msg_no_file)], 400), files)"
  | (no_name) upload where "map_of (request_files request) ''file'' = Some upload"
      "filename upload = []"
      "evaluate_uploaded_file env files request =
         (Inr ([(''success'', JBool False), (''error'', JStr msg_no_name)], 400), files)"
  | (bad_format) upload where "map_of (request_files request) ''file'' = Some upload"
      "filename upload \<noteq> []" "\<not> spec_allowed_file (filename upload)"
      "evaluate_uploaded_file env files request =
         (Inr ([(''success'', JBool False),
                (''error'', JStr (msg_bad_format @ join '', '' (iter_ALLOWED_EXTENSIONS env)))],
               400), files)"
  | (processed) upload where "map_of (request_files request) ''file'' = Some upload"
      "filename upload \<noteq> []" "spec_allowed_file (filename upload)"
      "evaluate_uploaded_file env files request =
         (Inr (fst (evaluate_uploaded_file_try env files upload)),
          snd (evaluate_uploaded_file_try env files upload))"
proof (cases "map_of (request_files request) ''file''")
  case None
  then show ?thesis using no_file by (simp add: evaluate_uploaded_file_def)
next
  case (Some upload)
  show ?thesis
  proof (cases "filename upload = []")
    case True
    with Some show ?thesis using no_name by (simp add: evaluate_uploaded_file_def)
  next
    case False
    show ?thesis
    proof (cases "spec_allowed_file (filename upload)")
      case True
      with Some False show ?thesis using processed
        by (simp add: evaluate_uploaded_file_def allowed_file_eq_spec split: prod.splits)
    next
      case no: False
      with Some False show ?thesis using bad_format
        by (simp add: evaluate_uploaded_file_def allowed_file_eq_spec)
    qed
  qed
qed

lemma post_evaluate_shape:
  "(snd (fst (post_evaluate env files request)) = 200 \<and>
      map_of (fst (fst (post_evaluate env files request))) ''success'' = Some (JBool True))
   \<or> (snd (fst (post_evaluate env files request)) \<in> {400, 500} \<and>
      failure_shape (fst (fst (post_evaluate env files request))))"
proof (cases rule: evaluate_uploaded_file_cases[of request env files])
  case no_file
  then show ?thesis by (simp add: post_evaluate_def dispatch_def failure_shape_plain)
next
  case (no_name upload)
  then show ?thesis by (simp add: post_evaluate_def dispatch_def failure_shape_plain)
next
  case (bad_format upload)
  then show ?thesis by (simp add: post_evaluate_def dispatch_def failure_shape_plain)
next
  case (processed upload)
  with upload_try_shape[of env files upload] show ?thesis
    by (auto simp: post_evaluate_def dispatch_def)
qed

section \<open>The path view\<close>

text \<open>The four ways the path view ends.\<close>

lemma evaluate_file_path_cases:
  obtains
    (raised) e where "evaluate_file_path env files data = Inl e"
  | (no_param) "evaluate_file_path env files data =
         Inr ([(''success'', JBool False), (''error'', JStr msg_need_param)], 400)"
  | (not_found) file_path where "py_getitem data ''file_path'' = Inr file_path"
      "os_path_exists env files file_path = Inr False"
      "evaluate_file_path env files data =
         Inr ([(''success'', JBool False),
               (''error'', JStr (msg_not_found @ str_json env file_path))], 404)"
  | (evaluated) file_path where "py_getitem data ''file_path'' = Inr file_path"
      "os_path_exists env files file_path = Inr True"
      "evaluate_file_path env files data =
         Inr (respond env (evaluate_audio_file env files file_path))"
proof (cases "evaluate_file_path env files data")
  case (Inl e)
  then show ?thesis using raised by blast
next
  case (Inr r)
  then obtain missing where
    m: "(if \<not> truthy env data then Inr True
         else bind_exn (py_contains ''file_path'' data) (\<lambda>c. Inr (\<not> c))) = Inr missing"
    unfolding evaluate_file_path_def by (auto simp: bind_exn_Inr_iff)
  show ?thesis
  proof (cases missing)
    case True
    with m show ?thesis using no_param by (simp add: evaluate_file_path_def)
  next
    case False
    with Inr m obtain file_path ex where
      g: "py_getitem data ''file_path'' = Inr file_path"
      and x: "os_path_exists env files file_path = Inr ex"
      unfolding evaluate_file_path_def by (auto simp: bind_exn_Inr_iff)
    show ?thesis
    proof (cases ex)
      case True
      with m False g x show ?thesis using evaluated
        by (simp add: evaluate_file_path_def)
    next
      case nex: False
      with m False g x show ?thesis using not_found
        by (simp add: evaluate_file_path_def)
    qed
  qed
qed

lemma post_evaluate_path_shape:
  "(snd (post_evaluate_path env files data) = 200 \<and>
      map_of (fst (post_evaluate_path env files data)) ''success'' = Some (JBool True))
   \<or> (snd (post_evaluate_path env files data) \<in> {400, 404, 500} \<and>
      failure_shape (fst (post_evaluate_path env files data)))"
proof (cases rule: evaluate_file_path_cases[of env files data])
  case (raised e)
  then show ?thesis
    by (simp add: post_evaluate_path_def dispatch_def internal_error_def failure_shape_plain)
next
  case no_param
  then show ?thesis by (simp add: post_evaluate_path_def dispatch_def failure_shape_plain)
next
  case (not_found file_path)
  then show ?thesis by (simp add: post_evaluate_path_def dispatch_def failure_shape_plain)
next
  case (evaluated file_path)
  with respond_evaluate_exists[OF evaluated(2)] show ?thesis
    by (auto simp: post_evaluate_path_def dispatch_def)
qed

text \<open>
  C2. Both evaluation endpoints answer either with status 200 and a body whose
  \<open>success\<close> is true, or with a body of the failure shape: whenever the status is not
  200, and whenever the body does not carry \<open>success\<close> true, the body has \<open>success\<close>
  false, an \<open>error\<close> text, and at most a \<open>traceback\<close> besides.
  The bodies of the two registered error handlers have the failure shape too.
\<close>

theorem C2_failure_shape:
  "(snd (fst (post_evaluate env files request)) \<noteq> 200 \<longrightarrow>
      failure_shape (fst (fst (post_evaluate env files request)))) \<and>
   (map_of (fst (fst (post_evaluate env files request))) ''success'' \<noteq> Some (JBool True) \<longrightarrow>
      failure_shape (fst (fst (post_evaluate env files request)))) \<and>
   (snd (post_evaluate_path env files data) \<noteq> 200 \<longrightarrow>
      failure_shape (fst (post_evaluate_path env files data))) \<and>
   (map_of (fst (post_evaluate_path env files data)) ''success'' \<noteq> Some (JBool True) \<longrightarrow>
      failure_shape (fst (post_evaluate_path env files data))) \<and>
   failure_shape (fst (too_large e)) \<and> failure_shape (fst (internal_error e))"
  using post_evaluate_shape[of env files request] post_evaluate_path_shape[of env files data]
  by (auto simp: too_large_def internal_error_def failure_shape_plain)

lemma example_no_file:
  "post_evaluate example_env example_files \<lparr>request_files = []\<rparr> =
     (([(''success'', JBool False), (''error'', JStr msg_no_file)], 400), example_files)"
  by (simp add: post_evaluate_def evaluate_uploaded_file_def dispatch_def)

lemma example_noise_path:
  "post_evaluate_path example_env example_files (JObj [(''file_path'', JStr ''c.wav'')]) =
     ([(''success'', JBool False), (''error'', JStr ''Format not recognised.''),
       (''traceback'', JStr ''Traceback (most recent call last): Format not recognised.'')],
      500)"
  by (simp add: post_evaluate_path_def evaluate_file_path_def dispatch_def truthy_def
      py_contains_def py_getitem_def os_path_exists_def example_files_def respond_def
      dict_get_def evaluate_audio_file_def evaluate_audio_file_try_def prepare_def sf_read_def
      example_env_def str_exn_def)

theorem C2_witness:
  "snd (fst (post_evaluate example_env example_files \<lparr>request_files = []\<rparr>)) \<noteq> 200 \<and>
   failure_shape (fst (fst (post_evaluate example_env example_files \<lparr>request_files = []\<rparr>))) \<and>
   map_of (fst (post_evaluate_path example_env example_files
     (JObj [(''file_path'', JStr ''c.wav'')]))) ''success'' \<noteq> Some (JBool True) \<and>
   snd (post_evaluate_path example_env example_files
     (JObj [(''file_path'', JStr ''c.wav'')])) \<noteq> 200 \<and>
   failure_shape (fst (post_evaluate_path example_env example_files
     (JObj [(''file_path'', JStr ''c.wav'')])))"
proof -
  have h1: "snd (fst (post_evaluate example_env example_files \<lparr>request_files = []\<rparr>)) \<noteq> 200"
    by (simp add: example_no_file)
  have h2: "snd (post_evaluate_path example_env example_files
     (JObj [(''file_path'', JStr ''c.wav'')])) \<noteq> 200"
    by (simp add: example_noise_path)
  have h3: "map_of (fst (post_evaluate_path example_env example_files
     (JObj [(''file_path'', JStr ''c.wav'')]))) ''success'' \<noteq> Some (JBool True)"
    by (simp add: example_noise_path)
  from h1 h2 h3
    C2_failure_shape[of example_env example_files "\<lparr>request_files = []\<rparr>"
      "JObj [(''file_path'', JStr ''c.wav'')]"]
  show ?thesis by blast
qed

section \<open>The engine handle\<close>

lemma engine_unset_respond:
  assumes "sigmos_estimator env = None" and "os_path_exists env files p = Inr True"
  shows "snd (respond env (evaluate_audio_file env files p)) = 500 \<and>
         failure_shape (fst (respond env (evaluate_audio_file env files p)))"
proof (cases rule: evaluate_audio_file_cases[of env files p])
  case (raised e)
  then show ?thesis by (simp add: respond_raised failure_shape_raised)
next
  case missing
  with assms show ?thesis by simp
next
  case (scored fi a sr)
  from score_Inr[OF scored(3)] assms(1) show ?thesis
    by (auto simp: estimator_run_def)
qed

lemma engine_unset_upload_try:
  assumes "sigmos_estimator env = None"
  shows "snd (fst (evaluate_uploaded_file_try env files upload)) = 500 \<and>
         failure_shape (fst (fst (evaluate_uploaded_file_try env files upload)))"
proof (cases "save_outcome env = SaveOk")
  case True
  have "os_path_exists env (files(upload_path env upload \<mapsto> stream upload))
          (JStr (upload_path env upload)) = Inr True"
    by (simp add: os_path_exists_def)
  from engine_unset_respond[OF assms this] upload_try_saved[OF True, of files upload]
  show ?thesis by simp
next
  case False
  from upload_try_not_saved[OF False, of files upload] show ?thesis
    by (auto simp: failure_shape_plain)
qed

lemma evaluate_file_path_object:
  "evaluate_file_path env files (JObj kvs) =
     (case map_of kvs ''file_path'' of
        None \<Rightarrow> Inr ([(''success'', JBool False), (''error'', JStr msg_need_param)], 400)
      | Some file_path \<Rightarrow>
          bind_exn (os_path_exists env files file_path) (\<lambda>ex.
            if \<not> ex
            then Inr ([(''success'', JBool False),
                       (''error'', JStr (msg_not_found @ str_json env file_path))], 404)
            else Inr (respond env (evaluate_audio_file env files file_path))))"
proof (cases "map_of kvs ''file_path''")
  case None
  then have "''file_path'' \<notin> fst ` set kvs" by (simp add: map_of_eq_None_iff)
  with None show ?thesis
    by (simp add: evaluate_file_path_def truthy_def py_contains_def)
next
  case (Some v)
  then have "(''file_path'', v) \<in> set kvs" by (rule map_of_SomeD)
  then have "''file_path'' \<in> fst ` set kvs" and "kvs \<noteq> []" by force+
  with Some show ?thesis
    by (simp add: evaluate_file_path_def truthy_def py_contains_def py_getitem_def)
qed

text \<open>
  C9. The health probe answers 503 with an unhealthy body when the engine handle is
  unset and 200 with a healthy body otherwise. With the handle unset the evaluation
  endpoints never answer 503: an upload is answered 400 or 500 and a path request
  400, 404 or 500; a request that passes validation is answered 500 with a failure
  body.
\<close>

theorem C9_health_and_unset_engine:
  "(sigmos_estimator env = None \<longrightarrow>
      health_check env =
        ([(''status'', JStr ''unhealthy''), (''message'', JStr msg_unhealthy)], 503)) \<and>
   (sigmos_estimator env \<noteq> None \<longrightarrow>
      snd (health_check env) = 200 \<and>
      map_of (fst (health_check env)) ''status'' = Some (JStr ''healthy'')) \<and>
   (sigmos_estimator env = None \<longrightarrow>
      snd (fst (post_evaluate env files request)) \<in> {400, 500} \<and>
      snd (post_evaluate_path env files data) \<in> {400, 404, 500}) \<and>
   (sigmos_estimator env = None \<and>
    map_of (request_files request) ''file'' = Some upload \<and>
    filename upload \<noteq> [] \<and> spec_allowed_file (filename upload) \<longrightarrow>
      snd (fst (post_evaluate env files request)) = 500 \<and>
      failure_shape (fst (fst (post_evaluate env files request)))) \<and>
   (sigmos_estimator env = None \<and>
    data = JObj kvs \<and> map_of kvs ''file_path'' = Some (JStr s) \<and> files s \<noteq> None \<longrightarrow>
      snd (post_evaluate_path env files data) = 500 \<and>
      failure_shape (fst (post_evaluate_path env files data)))"
proof (intro conjI impI)
  assume "sigmos_estimator env = None"
  then show "health_check env =
        ([(''status'', JStr ''unhealthy''), (''message'', JStr msg_unhealthy)], 503)"
    by (simp add: health_check_def)
next
  assume "sigmos_estimator env \<noteq> None"
  then show "snd (health_check env) = 200"
    and "map_of (fst (health_check env)) ''status'' = Some (JStr ''healthy'')"
    by (auto simp: health_check_def)
next
  assume u: "sigmos_estimator env = None"
  show "snd (fst (post_evaluate env files request)) \<in> {400, 500}"
  proof (cases rule: evaluate_uploaded_file_cases[of request env files])
    case (processed upload)
    with engine_unset_upload_try[OF u, of files upload] show ?thesis
      by (simp add: post_evaluate_def dispatch_def)
  qed (simp_all add: post_evaluate_def dispatch_def)
  show "snd (post_evaluate_path env files data) \<in> {400, 404, 500}"
  proof (cases rule: evaluate_file_path_cases[of env files data])
    case (evaluated file_path)
    with engine_unset_respond[OF u evaluated(2)] show ?thesis
      by (simp add: post_evaluate_path_def dispatch_def)
  qed (simp_all add: post_evaluate_path_def dispatch_def internal_error_def)
next
  assume a: "sigmos_estimator env = None \<and>
    map_of (request_files request) ''file'' = Some upload \<and>
    filename upload \<noteq> [] \<and> spec_allowed_file (filename upload)"
  then have u: "sigmos_estimator env = None" by simp
  from a have "fst (post_evaluate env files request) =
      fst (evaluate_uploaded_file_try env files upload)"
    by (simp add: post_evaluate_def dispatch_def evaluate_uploaded_file_def
        allowed_file_eq_spec split: prod.splits)
  with engine_unset_upload_try[OF u, of files upload]
  show "snd (fst (post_evaluate env files request)) = 500"
    and "failure_shape (fst (fst (post_evaluate env files request)))"
    by simp_all
next
  assume a: "sigmos_estimator env = None \<and>
    data = JObj kvs \<and> map_of kvs ''file_path'' = Some (JStr s) \<and> files s \<noteq> None"
  then have u: "sigmos_estimator env = None" by simp
  from a have x: "os_path_exists env files (JStr s) = Inr True"
    by (simp add: os_path_exists_def)
  from a x have "post_evaluate_path env files data =
      respond env (evaluate_audio_file env files (JStr s))"
    by (simp add: post_evaluate_path_def dispatch_def evaluate_file_path_object)
  with engine_unset_respond[OF u x]
  show "snd (post_evaluate_path env files data) = 500"
    and "failure_shape (fst (post_evaluate_path env files data))"
    by simp_all
qed

lemma example_take1_allowed: "spec_allowed_file ''take1.WAV''"
  by (simp add: spec_allowed_file_def after_last_dot_def lower_def lower_char_def
      ALLOWED_EXTENSIONS_def)

theorem C9_witness:
  "sigmos_estimator (example_env\<lparr>sigmos_estimator := None\<rparr>) = None \<and>
   health_check (example_env\<lparr>sigmos_estimator := None\<rparr>) =
     ([(''status'', JStr ''unhealthy''), (''message'', JStr msg_unhealthy)], 503) \<and>
   sigmos_estimator example_env \<noteq> None \<and>
   snd (health_check example_env) = 200 \<and>
   map_of (fst (health_check example_env)) ''status'' = Some (JStr ''healthy'') \<and>
   map_of (request_files example_upload) ''file'' =
     Some \<lparr>filename = ''take1.WAV'', stream = ''mono''\<rparr> \<and>
   filename \<lparr>filename = ''take1.WAV'', stream = ''mono''\<rparr> \<noteq> [] \<and>
   spec_allowed_file (filename \<lparr>filename = ''take1.WAV'', stream = ''mono''\<rparr>) \<and>
   example_files ''a.wav'' \<noteq> None \<and>
   snd (fst (post_evaluate (example_env\<lparr>sigmos_estimator := None\<rparr>) example_files
     example_upload)) = 500 \<and>
   failure_shape (fst (fst (post_evaluate (example_env\<lparr>sigmos_estimator := None\<rparr>)
     example_files example_upload))) \<and>
   snd (post_evaluate_path (example_env\<lparr>sigmos_estimator := None\<rparr>) example_files
     (JObj [(''file_path'', JStr ''a.wav'')])) = 500 \<and>
   failure_shape (fst (post_evaluate_path (example_env\<lparr>sigmos_estimator := None\<rparr>)
     example_files (JObj [(''file_path'', JStr ''a.wav'')])))"
proof -
  have u: "sigmos_estimator (example_env\<lparr>sigmos_estimator := None\<rparr>) = None"
    by simp
  have l: "sigmos_estimator example_env \<noteq> None"
    by (simp add: example_env_def)
  have v: "map_of (request_files example_upload) ''file'' =
      Some \<lparr>filename = ''take1.WAV'', stream = ''mono''\<rparr>"
    "filename \<lparr>filename = ''take1.WAV'', stream = ''mono''\<rparr> \<noteq> []"
    "spec_allowed_file (filename \<lparr>filename = ''take1.WAV'', stream = ''mono''\<rparr>)"
    by (simp_all add: example_upload_def example_take1_allowed)
  have x: "example_files ''a.wav'' \<noteq> None"
    by (simp add: example_files_def)
  from u v x
    C9_health_and_unset_engine[of "example_env\<lparr>sigmos_estimator := None\<rparr>" example_files
      example_upload "JObj [(''file_path'', JStr ''a.wav'')]"
      "\<lparr>filename = ''take1.WAV'', stream = ''mono''\<rparr>" "[(''file_path'', JStr ''a.wav'')]"
      "''a.wav''"]
  have 1: "health_check (example_env\<lparr>sigmos_estimator := None\<rparr>) =
     ([(''status'', JStr ''unhealthy''), (''message'', JStr msg_unhealthy)], 503)"
    and 2: "snd (fst (post_evaluate (example_env\<lparr>sigmos_estimator := None\<rparr>) example_files
     example_upload)) = 500"
     "failure_shape (fst (fst (post_evaluate (example_env\<lparr>sigmos_estimator := None\<rparr>)
     example_files example_upload)))"
     "snd (post_evaluate_path (example_env\<lparr>sigmos_estimator := None\<rparr>) example_files
     (JObj [(''file_path'', JStr ''a.wav'')])) = 500"
     "failure_shape (fst (post_evaluate_path (example_env\<lparr>sigmos_estimator := None\<rparr>)
     example_files (JObj [(''file_path'', JStr ''a.wav'')])))"
    by simp_all
  from l C9_health_and_unset_engine[of example_env]
  have 3: "snd (health_check example_env) = 200"
    "map_of (fst (health_check example_env)) ''status'' = Some (JStr ''healthy'')"
    by simp_all
  from u l v x 1 2 3 show ?thesis by simp
qed

section \<open>The temporary file\<close>

text \<open>Nothing but \<^verbatim>\<open>os.remove\<close> looks at whether the deletion fails.\<close>

lemma truthy_remove_fails: "truthy (env\<lparr>remove_fails := b\<rparr>) v = truthy env v"
  by (cases v) (simp_all add: truthy_def)

lemma os_path_exists_remove_fails:
  "os_path_exists (env\<lparr>remove_fails := b\<rparr>) files p = os_path_exists env files p"
  by (cases p) (simp_all add: os_path_exists_def)

lemma str_json_remove_fails: "str_json (env\<lparr>remove_fails := b\<rparr>) v = str_json env v"
  by (cases v) (simp_all add: str_json_def)

lemma sf_read_remove_fails:
  "sf_read (env\<lparr>remove_fails := b\<rparr>) files p = sf_read env files p"
  by (cases p) (simp_all add: sf_read_def split: option.splits)

lemma py_truediv_remove_fails:
  "py_truediv (env\<lparr>remove_fails := b\<rparr>) n d = py_truediv env n d"
  by (auto simp: py_truediv_def)

lemma file_info_of_remove_fails:
  "file_info_of (env\<lparr>remove_fails := b\<rparr>) p audio sr = file_info_of env p audio sr"
  by (simp add: file_info_of_def py_truediv_remove_fails)

lemma prepare_remove_fails:
  "prepare (env\<lparr>remove_fails := b\<rparr>) files p = prepare env files p"
  by (simp add: prepare_def sf_read_remove_fails file_info_of_remove_fails)

lemma estimator_run_remove_fails:
  "estimator_run (env\<lparr>remove_fails := b\<rparr>) a sr = estimator_run env a sr"
  by (simp add: estimator_run_def)

lemma assemble_remove_fails:
  "assemble (env\<lparr>remove_fails := b\<rparr>) fi result = assemble env fi result"
  by (simp add: assemble_def mos_scores_of_def)

lemma score_remove_fails:
  "score (env\<lparr>remove_fails := b\<rparr>) fi a sr = score env fi a sr"
proof -
  have "assemble (env\<lparr>remove_fails := b\<rparr>) fi = assemble env fi"
    by (simp add: fun_eq_iff assemble_remove_fails)
  then show ?thesis
    by (simp add: score_def estimator_run_remove_fails)
qed

lemma evaluate_audio_file_try_remove_fails:
  "evaluate_audio_file_try (env\<lparr>remove_fails := b\<rparr>) files p =
     evaluate_audio_file_try env files p"
  by (simp add: evaluate_audio_file_try_def os_path_exists_remove_fails
      str_json_remove_fails prepare_remove_fails score_remove_fails cong: if_cong)

lemma evaluate_audio_file_remove_fails:
  "evaluate_audio_file (env\<lparr>remove_fails := b\<rparr>) files p = evaluate_audio_file env files p"
  by (simp add: evaluate_audio_file_def evaluate_audio_file_try_remove_fails
      cong: sum.case_cong)

lemma respond_remove_fails:
  "respond (env\<lparr>remove_fails := b\<rparr>) result = respond env result"
  by (simp add: respond_def truthy_remove_fails)

lemma upload_path_remove_fails:
  "upload_path (env\<lparr>remove_fails := b\<rparr>) upload = upload_path env upload"
  by (simp add: upload_path_def)

lemma post_evaluate_processed:
  assumes "map_of (request_files request) ''file'' = Some upload"
    "filename upload \<noteq> []" "spec_allowed_file (filename upload)"
  shows "post_evaluate env files request = evaluate_uploaded_file_try env files upload"
  using assms
  by (simp add: post_evaluate_def dispatch_def evaluate_uploaded_file_def
      allowed_file_eq_spec split: prod.splits)

text \<open>
  For an upload that passes validation and is saved, the evaluation runs on the
  saved temporary file and \<^verbatim>\<open>os.remove\<close> is then called on it, whatever the
  evaluation returned (a result, a decode failure or a scoring failure): when the
  deletion succeeds the request leaves the filesystem without the temporary file,
  and when it fails the file stays; whether the deletion fails never changes the
  response.
\<close>

lemma temporary_file_removed_after_save:
  assumes "map_of (request_files request) ''file'' = Some upload"
    and "filename upload \<noteq> []"
    and "spec_allowed_file (filename upload)"
    and "save_outcome env = SaveOk"
  shows "fst (post_evaluate env files request) =
           respond env (evaluate_audio_file env
             (files(upload_path env upload \<mapsto> stream upload)) (JStr (upload_path env upload))) \<and>
         (\<not> remove_fails env \<longrightarrow>
            snd (post_evaluate env files request) = files(upload_path env upload := None)) \<and>
         (remove_fails env \<longrightarrow>
            snd (post_evaluate env files request) =
              files(upload_path env upload \<mapsto> stream upload)) \<and>
         fst (post_evaluate (env\<lparr>remove_fails := b\<rparr>) files request) =
           fst (post_evaluate env files request)"
proof -
  have s: "save_outcome (env\<lparr>remove_fails := b\<rparr>) = SaveOk"
    using assms(4) by simp
  have 1: "post_evaluate env files request = evaluate_uploaded_file_try env files upload"
    using assms(1-3) by (rule post_evaluate_processed)
  have 2: "post_evaluate (env\<lparr>remove_fails := b\<rparr>) files request =
      evaluate_uploaded_file_try (env\<lparr>remove_fails := b\<rparr>) files upload"
    using assms(1-3) by (rule post_evaluate_processed)
  show ?thesis
    unfolding 1 2 upload_try_saved[OF assms(4)] upload_try_saved[OF s]
    by (simp add: evaluate_audio_file_remove_fails respond_remove_fails
        upload_path_remove_fails)
qed

lemma example_upload_path:
  "upload_path example_full_disk_env \<lparr>filename = ''take1.WAV'', stream = ''mono''\<rparr> =
     ''uploads/1b4e28ba_take1.WAV''"
  by (simp add: upload_path_def os_path_join_def UPLOAD_FOLDER_def example_full_disk_env_def
      example_env_def)

text \<open>
  C1. The temporary file is not removed on every outcome of an upload that passes
  validation. When \<^verbatim>\<open>file.save\<close> raises after it has created the destination,
  the exception is caught by the outer handler of the view: the answer is status 500
  with the failure body, \<^verbatim>\<open>os.remove\<close> is never called, and the request leaves
  the partly written file in the upload directory.
\<close>

theorem C1_failed_save_leaves_file:
  assumes "map_of (request_files request) ''file'' = Some upload"
    and "filename upload \<noteq> []"
    and "spec_allowed_file (filename upload)"
    and "save_outcome env = SaveWriteFails e written"
  shows "post_evaluate env files request =
           (([(''success'', JBool False), (''error'', JStr (msg_processing @ str_exn e))], 500),
            files(upload_path env upload \<mapsto> written))"
proof -
  have "post_evaluate env files request = evaluate_uploaded_file_try env files upload"
    using assms(1-3) by (rule post_evaluate_processed)
  with assms(4) show ?thesis
    by (simp add: evaluate_uploaded_file_try_def file_save_def Let_def)
qed

theorem C1_failed_save_witness:
  "map_of (request_files example_upload) ''file'' =
     Some \<lparr>filename = ''take1.WAV'', stream = ''mono''\<rparr> \<and>
   filename \<lparr>filename = ''take1.WAV'', stream = ''mono''\<rparr> \<noteq> [] \<and>
   spec_allowed_file (filename \<lparr>filename = ''take1.WAV'', stream = ''mono''\<rparr>) \<and>
   save_outcome example_full_disk_env =
     SaveWriteFails (Raised ''No space left on device'') ''mo'' \<and>
   example_files ''uploads/1b4e28ba_take1.WAV'' = None \<and>
   fst (post_evaluate example_full_disk_env example_files example_upload) =
     ([(''success'', JBool False),
       (''error'', JStr (msg_processing @ ''No space left on device''))], 500) \<and>
   snd (post_evaluate example_full_disk_env example_files example_upload)
     ''uploads/1b4e28ba_take1.WAV'' = Some ''mo''"
proof -
  have v: "map_of (request_files example_upload) ''file'' =
      Some \<lparr>filename = ''take1.WAV'', stream = ''mono''\<rparr>"
    "filename \<lparr>filename = ''take1.WAV'', stream = ''mono''\<rparr> \<noteq> []"
    "spec_allowed_file (filename \<lparr>filename = ''take1.WAV'', stream = ''mono''\<rparr>)"
    by (simp_all add: example_upload_def example_take1_allowed)
  have s: "save_outcome example_full_disk_env =
      SaveWriteFails (Raised ''No space left on device'') ''mo''"
    by (simp add: example_full_disk_env_def)
  have n: "example_files ''uploads/1b4e28ba_take1.WAV'' = None"
    by (simp add: example_files_def)
  from C1_failed_save_leaves_file[OF v s, of example_files]
  have "post_evaluate example_full_disk_env example_files example_upload =
      (([(''success'', JBool False),
         (''error'', JStr (msg_processing @ ''No space left on device''))], 500),
       example_files(''uploads/1b4e28ba_take1.WAV'' \<mapsto> ''mo''))"
    by (simp add: example_upload_path str_exn_def)
  with v s n show ?thesis by simp
qed

section \<open>Validation of an upload\<close>

lemma sublist_join: "x \<in> set xs \<Longrightarrow> sublist x (join sep xs)"
proof (induction sep xs rule: join.induct)
  case (1 sep)
  then show ?case by simp
next
  case (2 sep y)
  then show ?case by simp
next
  case (3 sep y z zs)
  show ?case
  proof (cases "x = y")
    case True
    then show ?thesis by (simp add: sublist_append_rightI)
  next
    case False
    with 3 have "sublist x (join sep (z # zs))" by simp
    moreover have "sublist (join sep (z # zs)) ((y @ sep) @ join sep (z # zs))"
      by (rule sublist_append_leftI)
    ultimately have "sublist x ((y @ sep) @ join sep (z # zs))"
      by (rule sublist_order.order.trans)
    then show ?thesis by simp
  qed
qed

lemma set_iter_ALLOWED_EXTENSIONS:
  "set (iter_ALLOWED_EXTENSIONS env) = ALLOWED_EXTENSIONS"
proof -
  have "set (iter_ALLOWED_EXTENSIONS env) = set [''wav'', ''mp3'', ''flac'', ''m4a'']"
    unfolding iter_ALLOWED_EXTENSIONS_def by (rule set_sort)
  then show ?thesis by (simp add: ALLOWED_EXTENSIONS_def)
qed

lemma bad_format_names_extensions:
  "names_allowed_extensions (msg_bad_format @ join '', '' (iter_ALLOWED_EXTENSIONS env))"
  unfolding names_allowed_extensions_def
proof
  fix e assume "e \<in> ALLOWED_EXTENSIONS"
  then have "e \<in> set (iter_ALLOWED_EXTENSIONS env)"
    by (simp add: set_iter_ALLOWED_EXTENSIONS)
  then have "sublist e (join '', '' (iter_ALLOWED_EXTENSIONS env))"
    by (rule sublist_join)
  moreover have "sublist (join '', '' (iter_ALLOWED_EXTENSIONS env))
      (msg_bad_format @ join '', '' (iter_ALLOWED_EXTENSIONS env))"
    by (rule sublist_append_leftI)
  ultimately show "sublist e (msg_bad_format @ join '', '' (iter_ALLOWED_EXTENSIONS env))"
    by (rule sublist_order.order.trans)
qed

lemma no_file_names_nothing: "\<not> names_allowed_extensions msg_no_file"
proof -
  have "\<not> sublist ''wav'' msg_no_file"
    by (simp add: msg_no_file_def sublist_code)
  then show ?thesis
    by (simp add: names_allowed_extensions_def ALLOWED_EXTENSIONS_def)
qed

lemma no_name_names_nothing: "\<not> names_allowed_extensions msg_no_name"
proof -
  have "\<not> sublist ''wav'' msg_no_name"
    by (simp add: msg_no_name_def sublist_code)
  then show ?thesis
    by (simp add: names_allowed_extensions_def ALLOWED_EXTENSIONS_def)
qed

lemma upload_try_status:
  "snd (fst (evaluate_uploaded_file_try env files upload)) \<in> {200, 500}"
  using upload_try_shape[of env files upload] by auto

lemma error_text_plain [simp]:
  "error_text [(''success'', JBool False), (''error'', JStr m)] = m"
  by (simp add: error_text_def)

lemma post_evaluate_400_iff:
  "snd (fst (post_evaluate env files request)) = 400 \<longleftrightarrow>
     (map_of (request_files request) ''file'' = None \<or>
      (\<exists>upload. map_of (request_files request) ''file'' = Some upload \<and>
         (filename upload = [] \<or> \<not> spec_allowed_file (filename upload))))"
proof (cases rule: evaluate_uploaded_file_cases[of request env files])
  case (processed upload)
  with upload_try_status[of env files upload] show ?thesis
    by (auto simp: post_evaluate_def dispatch_def)
qed (auto simp: post_evaluate_def dispatch_def)

lemma post_evaluate_names_iff:
  "snd (fst (post_evaluate env files request)) = 400 \<and>
   names_allowed_extensions (error_text (fst (fst (post_evaluate env files request)))) \<longleftrightarrow>
     (\<exists>upload. map_of (request_files request) ''file'' = Some upload \<and>
        filename upload \<noteq> [] \<and> \<not> spec_allowed_file (filename upload))"
proof (cases rule: evaluate_uploaded_file_cases[of request env files])
  case no_file
  then show ?thesis
    by (simp add: post_evaluate_def dispatch_def no_file_names_nothing)
next
  case (no_name upload)
  then show ?thesis
    by (simp add: post_evaluate_def dispatch_def no_name_names_nothing)
next
  case (bad_format upload)
  then show ?thesis
    by (simp add: post_evaluate_def dispatch_def bad_format_names_extensions)
next
  case (processed upload)
  with upload_try_status[of env files upload] show ?thesis
    by (auto simp: post_evaluate_def dispatch_def)
qed

text \<open>
  C7 (amended). An upload is rejected with status 400 exactly when the file part is
  absent, the filename is empty, or the filename has no allowed extension. Only the
  rejection for the extension carries a message that names the allowed extensions;
  an absent file part and an empty filename are rejected with their own fixed
  messages. A request that passes the three checks is processed and answered 200 or
  500.
\<close>

theorem C7_upload_validation:
  "(snd (fst (post_evaluate env files request)) = 400 \<longleftrightarrow>
      (map_of (request_files request) ''file'' = None \<or>
       (\<exists>upload. map_of (request_files request) ''file'' = Some upload \<and>
          (filename upload = [] \<or> \<not> spec_allowed_file (filename upload))))) \<and>
   (snd (fst (post_evaluate env files request)) = 400 \<and>
    names_allowed_extensions (error_text (fst (fst (post_evaluate env files request)))) \<longleftrightarrow>
      (\<exists>upload. map_of (request_files request) ''file'' = Some upload \<and>
         filename upload \<noteq> [] \<and> \<not> spec_allowed_file (filename upload))) \<and>
   (map_of (request_files request) ''file'' = None \<longrightarrow>
      fst (post_evaluate env files request) =
        ([(''success'', JBool False), (''error'', JStr msg_no_file)], 400)) \<and>
   (map_of (request_files request) ''file'' = Some upload \<and> filename upload = [] \<longrightarrow>
      fst (post_evaluate env files request) =
        ([(''success'', JBool False), (''error'', JStr msg_no_name)], 400)) \<and>
   (map_of (request_files request) ''file'' = Some upload \<and> filename upload \<noteq> [] \<and>
    spec_allowed_file (filename upload) \<longrightarrow>
      post_evaluate env files request = evaluate_uploaded_file_try env files upload \<and>
      snd (fst (post_evaluate env files request)) \<in> {200, 500})"
proof (intro conjI impI)
  show "snd (fst (post_evaluate env files request)) = 400 \<longleftrightarrow>
      (map_of (request_files request) ''file'' = None \<or>
       (\<exists>upload. map_of (request_files request) ''file'' = Some upload \<and>
          (filename upload = [] \<or> \<not> spec_allowed_file (filename upload))))"
    by (rule post_evaluate_400_iff)
  show "snd (fst (post_evaluate env files request)) = 400 \<and>
    names_allowed_extensions (error_text (fst (fst (post_evaluate env files request)))) \<longleftrightarrow>
      (\<exists>upload. map_of (request_files request) ''file'' = Some upload \<and>
         filename upload \<noteq> [] \<and> \<not> spec_allowed_file (filename upload))"
    by (rule post_evaluate_names_iff)
next
  assume "map_of (request_files request) ''file'' = None"
  then show "fst (post_evaluate env files request) =
        ([(''success'', JBool False), (''error'', JStr msg_no_file)], 400)"
    by (simp add: post_evaluate_def dispatch_def evaluate_uploaded_file_def)
next
  assume "map_of (request_files request) ''file'' = Some upload \<and> filename upload = []"
  then show "fst (post_evaluate env files request) =
        ([(''success'', JBool False), (''error'', JStr msg_no_name)], 400)"
    by (simp add: post_evaluate_def dispatch_def evaluate_uploaded_file_def)
next
  assume a: "map_of (request_files request) ''file'' = Some upload \<and> filename upload \<noteq> [] \<and>
    spec_allowed_file (filename upload)"
  then show p: "post_evaluate env files request = evaluate_uploaded_file_try env files upload"
    by (simp add: post_evaluate_processed)
  show "snd (fst (post_evaluate env files request)) \<in> {200, 500}"
    unfolding p by (rule upload_try_status)
qed

lemma example_notes_rejected: "\<not> spec_allowed_file ''notes.txt''"
  by (simp add: spec_allowed_file_def after_last_dot_def lower_def lower_char_def
      ALLOWED_EXTENSIONS_def)

theorem C7_witness:
  "map_of (request_files \<lparr>request_files = []\<rparr>) ''file'' = None \<and>
   fst (post_evaluate example_env example_files \<lparr>request_files = []\<rparr>) =
     ([(''success'', JBool False), (''error'', JStr msg_no_file)], 400) \<and>
   map_of (request_files example_text_upload) ''file'' =
     Some \<lparr>filename = ''notes.txt'', stream = ''hello''\<rparr> \<and>
   filename \<lparr>filename = ''notes.txt'', stream = ''hello''\<rparr> \<noteq> [] \<and>
   \<not> spec_allowed_file (filename \<lparr>filename = ''notes.txt'', stream = ''hello''\<rparr>) \<and>
   snd (fst (post_evaluate example_env example_files example_text_upload)) = 400 \<and>
   names_allowed_extensions
     (error_text (fst (fst (post_evaluate example_env example_files example_text_upload)))) \<and>
   map_of (request_files example_upload) ''file'' =
     Some \<lparr>filename = ''take1.WAV'', stream = ''mono''\<rparr> \<and>
   spec_allowed_file (filename \<lparr>filename = ''take1.WAV'', stream = ''mono''\<rparr>) \<and>
   post_evaluate example_env example_files example_upload =
     evaluate_uploaded_file_try example_env example_files
       \<lparr>filename = ''take1.WAV'', stream = ''mono''\<rparr> \<and>
   snd (fst (post_evaluate example_env example_files example_upload)) \<in> {200, 500}"
proof -
  have n: "map_of (request_files \<lparr>request_files = []\<rparr>) ''file'' = None"
    by simp
  have t: "map_of (request_files example_text_upload) ''file'' =
      Some \<lparr>filename = ''notes.txt'', stream = ''hello''\<rparr>"
    "filename \<lparr>filename = ''notes.txt'', stream = ''hello''\<rparr> \<noteq> []"
    "\<not> spec_allowed_file (filename \<lparr>filename = ''notes.txt'', stream = ''hello''\<rparr>)"
    by (simp_all add: example_text_upload_def example_notes_rejected)
  have v: "map_of (request_files example_upload) ''file'' =
      Some \<lparr>filename = ''take1.WAV'', stream = ''mono''\<rparr>"
    "filename \<lparr>filename = ''take1.WAV'', stream = ''mono''\<rparr> \<noteq> []"
    "spec_allowed_file (filename \<lparr>filename = ''take1.WAV'', stream = ''mono''\<rparr>)"
    by (simp_all add: example_upload_def example_take1_allowed)
  from n C7_upload_validation[of example_env example_files "\<lparr>request_files = []\<rparr>"]
  have 1: "fst (post_evaluate example_env example_files \<lparr>request_files = []\<rparr>) =
     ([(''success'', JBool False), (''error'', JStr msg_no_file)], 400)"
    by blast
  from t C7_upload_validation[of example_env example_files example_text_upload]
  have 2: "snd (fst (post_evaluate example_env example_files example_text_upload)) = 400 \<and>
    names_allowed_extensions
     (error_text (fst (fst (post_evaluate example_env example_files example_text_upload))))"
    by blast
  from v C7_upload_validation[of example_env example_files example_upload
      "\<lparr>filename = ''take1.WAV'', stream = ''mono''\<rparr>"]
  have 3: "post_evaluate example_env example_files example_upload =
     evaluate_uploaded_file_try example_env example_files
       \<lparr>filename = ''take1.WAV'', stream = ''mono''\<rparr> \<and>
     snd (fst (post_evaluate example_env example_files example_upload)) \<in> {200, 500}"
    by blast
  from n t v 1 2 3 show ?thesis by blast
qed

text \<open>
  The claim as the specification words it fails for a request without a file part:
  the request is rejected with status 400, but the message does not name the allowed
  extensions.
\<close>

theorem C7_counterexample:
  "map_of (request_files \<lparr>request_files = []\<rparr>) ''file'' = None \<and>
   snd (fst (post_evaluate example_env example_files \<lparr>request_files = []\<rparr>)) = 400 \<and>
   \<not> names_allowed_extensions
       (error_text (fst (fst (post_evaluate example_env example_files
          \<lparr>request_files = []\<rparr>))))"
  by (simp add: example_no_file no_file_names_nothing)

section \<open>Validation of a path request\<close>

lemma post_evaluate_path_object:
  "(data = JNull \<or> data = JObj [] \<or>
    (data = JObj kvs \<and> map_of kvs ''file_path'' = None) \<longrightarrow>
      post_evaluate_path env files data =
        ([(''success'', JBool False), (''error'', JStr msg_need_param)], 400)) \<and>
   (data = JObj kvs \<and> map_of kvs ''file_path'' = Some (JStr s) \<and> files s = None \<longrightarrow>
      post_evaluate_path env files data =
        ([(''success'', JBool False), (''error'', JStr (msg_not_found @ s))], 404)) \<and>
   (data = JObj kvs \<and> map_of kvs ''file_path'' = Some (JStr s) \<and> files s \<noteq> None \<longrightarrow>
      post_evaluate_path env files data =
        respond env (evaluate_audio_file env files (JStr s)))"
proof (intro conjI impI)
  assume "data = JNull \<or> data = JObj [] \<or>
    (data = JObj kvs \<and> map_of kvs ''file_path'' = None)"
  then consider "data = JNull" | "data = JObj kvs \<and> map_of kvs ''file_path'' = None"
    | "data = JObj []" by blast
  then show "post_evaluate_path env files data =
        ([(''success'', JBool False), (''error'', JStr msg_need_param)], 400)"
  proof cases
    case 1
    then show ?thesis
      by (simp add: post_evaluate_path_def dispatch_def evaluate_file_path_def truthy_def)
  next
    case 2
    then show ?thesis
      by (simp add: post_evaluate_path_def dispatch_def evaluate_file_path_object)
  next
    case 3
    then show ?thesis
      by (simp add: post_evaluate_path_def dispatch_def evaluate_file_path_object)
  qed
next
  assume "data = JObj kvs \<and> map_of kvs ''file_path'' = Some (JStr s) \<and> files s = None"
  then show "post_evaluate_path env files data =
        ([(''success'', JBool False), (''error'', JStr (msg_not_found @ s))], 404)"
    by (simp add: post_evaluate_path_def dispatch_def evaluate_file_path_object
        os_path_exists_def str_json_def)
next
  assume "data = JObj kvs \<and> map_of kvs ''file_path'' = Some (JStr s) \<and> files s \<noteq> None"
  then show "post_evaluate_path env files data =
        respond env (evaluate_audio_file env files (JStr s))"
    by (simp add: post_evaluate_path_def dispatch_def evaluate_file_path_object
        os_path_exists_def)
qed

text \<open>
  C8. A request body that is the JSON number 5 has no \<open>file_path\<close> parameter, yet it
  is not answered 400: the membership test raises TypeError, the exception leaves the
  view, and the handler registered for 500 answers.
\<close>

theorem C8_number_body_answered_500:
  "post_evaluate_path env files (JInt 5) =
     ([(''success'', JBool False), (''error'', JStr msg_internal)], 500)"
  by (simp add: post_evaluate_path_def dispatch_def evaluate_file_path_def truthy_def
      py_contains_def internal_error_def)

end
